theory Spec2Isabelle
  imports Main "HOL-Library.AList"
begin

section \<open>Time\<close>

text \<open>
  Python's naive \<^verbatim>\<open>datetime\<close> is a record of civil fields. A \<^verbatim>\<open>timedelta\<close> is
  kept as its total number of microseconds (Python normalises and compares durations by
  that value). Arithmetic goes through the number of microseconds since
  1970-01-01T00:00:00 in the proleptic Gregorian calendar; the local time zone is taken
  to be UTC, so that \<^verbatim>\<open>int(dt.timestamp())\<close> is that number cut to whole seconds.
  The range check of Python's datetime (years 1 to 9999) is not part of the model.
\<close>

record datetime =
  year :: int
  month :: int
  day :: int
  hour :: int
  minute :: int
  second :: int
  microsecond :: int

type_synonym timedelta = int

definition timedelta_days :: "int \<Rightarrow> timedelta" where
  "timedelta_days n = n * 86400000000"

definition timedelta_minutes :: "int \<Rightarrow> timedelta" where
  "timedelta_minutes n = n * 60000000"

definition days_from_civil :: "int \<Rightarrow> int \<Rightarrow> int \<Rightarrow> int" where
  "days_from_civil y m d =
     (let y' = (if m \<le> 2 then y - 1 else y);
          era = y' div 400;
          yoe = y' - era * 400;
          doy = (153 * (if m > 2 then m - 3 else m + 9) + 2) div 5 + d - 1;
          doe = yoe * 365 + yoe div 4 - yoe div 100 + doy
      in era * 146097 + doe - 719468)"

definition civil_from_days :: "int \<Rightarrow> int \<times> int \<times> int" where
  "civil_from_days z0 =
     (let z = z0 + 719468;
          era = z div 146097;
          doe = z - era * 146097;
          yoe = (doe - doe div 1460 + doe div 36524 - doe div 146096) div 365;
          doy = doe - (365 * yoe + yoe div 4 - yoe div 100);
          mp = (5 * doy + 2) div 153;
          d = doy - (153 * mp + 2) div 5 + 1;
          m = (if mp < 10 then mp + 3 else mp - 9);
          y = yoe + era * 400
      in (if m \<le> 2 then y + 1 else y, m, d))"

definition to_micro :: "datetime \<Rightarrow> int" where
  "to_micro dt =
     (((days_from_civil (year dt) (month dt) (day dt) * 24 + hour dt) * 60 + minute dt) * 60
        + second dt) * 1000000 + microsecond dt"

definition from_micro :: "int \<Rightarrow> datetime" where
  "from_micro us =
     (let s = us div 1000000; mi = s div 60; h = mi div 60;
          (y, m, d) = civil_from_days (h div 24)
      in \<lparr>year = y, month = m, day = d, hour = h mod 24, minute = mi mod 60,
          second = s mod 60, microsecond = us mod 1000000\<rparr>)"

text \<open>\<^verbatim>\<open>dt + delta\<close>, \<^verbatim>\<open>dt - delta\<close> and \<^verbatim>\<open>dt1 - dt2\<close>.\<close>

definition dt_add :: "datetime \<Rightarrow> timedelta \<Rightarrow> datetime" where
  "dt_add dt delta = from_micro (to_micro dt + delta)"

definition dt_sub :: "datetime \<Rightarrow> timedelta \<Rightarrow> datetime" where
  "dt_sub dt delta = from_micro (to_micro dt - delta)"

definition dt_diff :: "datetime \<Rightarrow> datetime \<Rightarrow> timedelta" where
  "dt_diff a b = to_micro a - to_micro b"

text \<open>\<^verbatim>\<open>int(dt.timestamp())\<close>: \<^verbatim>\<open>int\<close> cuts towards zero.\<close>

definition timestamp :: "datetime \<Rightarrow> int" where
  "timestamp dt =
     (let us = to_micro dt
      in if 0 \<le> us then us div 1000000 else - ((- us) div 1000000))"

definition digit :: "int \<Rightarrow> char" where
  "digit n = ''0123456789'' ! nat (n mod 10)"

definition pad2 :: "int \<Rightarrow> string" where
  "pad2 n = [digit (n div 10), digit n]"

definition pad4 :: "int \<Rightarrow> string" where
  "pad4 n = [digit (n div 1000), digit (n div 100), digit (n div 10), digit n]"

text \<open>The \<^verbatim>\<open>strftime\<close> formats the module uses:
  \<^verbatim>\<open>%Y-%m\<close>, \<^verbatim>\<open>%Y-%m-%d\<close>, \<^verbatim>\<open>%Y-%m-%d:%H\<close> and \<^verbatim>\<open>%Y-%m-%d:%H:%M\<close>.\<close>

definition strftime_Ym :: "datetime \<Rightarrow> string" where
  "strftime_Ym dt = pad4 (year dt) @ ''-'' @ pad2 (month dt)"

definition strftime_Ymd :: "datetime \<Rightarrow> string" where
  "strftime_Ymd dt = strftime_Ym dt @ ''-'' @ pad2 (day dt)"

definition strftime_YmdH :: "datetime \<Rightarrow> string" where
  "strftime_YmdH dt = strftime_Ymd dt @ '':'' @ pad2 (hour dt)"

definition strftime_YmdHM :: "datetime \<Rightarrow> string" where
  "strftime_YmdHM dt = strftime_YmdH dt @ '':'' @ pad2 (minute dt)"

text \<open>
  \<^verbatim>\<open>
  def next_month_delta(dt):
      next_month = dt.replace(day=28) + datetime.timedelta(days=4)
      return next_month.replace(day=1) - dt
  \<close>
\<close>

definition next_month_delta :: "datetime \<Rightarrow> timedelta" where
  "next_month_delta dt =
     (let next_month = dt_add (dt\<lparr>day := 28\<rparr>) (timedelta_days 4)
      in dt_diff (next_month\<lparr>day := 1\<rparr>) dt)"


section \<open>The environment\<close>

text \<open>
  \<^verbatim>\<open>os.environ\<close>, restricted to the integer-valued settings the module reads. A variable
  is held as the integer its text denotes, and \<open>env_int env k d\<close> is
  \<^verbatim>\<open>int(os.environ.get(k, d))\<close>.
\<close>

type_synonym environ = "string \<rightharpoonup> int"

definition env_int :: "environ \<Rightarrow> string \<Rightarrow> int \<Rightarrow> int" where
  "env_int env k d = (case env k of Some v \<Rightarrow> v | None \<Rightarrow> d)"


section \<open>The DynamoDB table\<close>

text \<open>
  One table, keyed by \<open>(user_id, period_id)\<close>. An item's other attributes are a map from
  attribute names to values of type \<open>S\<close> (string) or \<open>N\<close> (number; the decimal text of
  the wire format is kept as the integer it denotes). A client call raises exactly when
  \<open>raises\<close> says so for its API operation, and then leaves the table as it was. A
  query answers with all the items that match (the module reads one page of results and
  the key attributes of an item are the key it is stored under).
\<close>

datatype attr = S string | N int

type_synonym attrs = "string \<rightharpoonup> attr"

type_synonym key = "string \<times> string"

datatype api = Query | GetItem | PutItem | UpdateItem | DeleteItem

datatype error = ClientError api | ValidationException

record dynamodb =
  table :: "(key \<times> attrs) list"
  raises :: "api \<Rightarrow> bool"

text \<open>Sort keys are compared as byte strings, lexicographically.\<close>

fun key_le :: "string \<Rightarrow> string \<Rightarrow> bool" where
  "key_le [] _ = True"
| "key_le (x # xs) [] = False"
| "key_le (x # xs) (y # ys) =
     (if (of_char x :: nat) < of_char y then True
      else if x = y then key_le xs ys
      else False)"

definition begins_with :: "string \<Rightarrow> string \<Rightarrow> bool" where
  "begins_with s p = (take (length p) s = p)"

text \<open>\<^verbatim>\<open>user_id = :uid AND begins_with(period_id, :prefix)\<close>\<close>

definition query_begins_with ::
  "dynamodb \<Rightarrow> string \<Rightarrow> string \<Rightarrow> error + (key \<times> attrs) list" where
  "query_begins_with db uid p =
     (if raises db Query then Inl (ClientError Query)
      else Inr (filter (\<lambda>(k, a). fst k = uid \<and> begins_with (snd k) p) (table db)))"

text \<open>\<^verbatim>\<open>user_id = :uid AND period_id BETWEEN :start AND :end\<close>\<close>

definition query_between ::
  "dynamodb \<Rightarrow> string \<Rightarrow> string \<Rightarrow> string \<Rightarrow> error + (key \<times> attrs) list" where
  "query_between db uid lo hi =
     (if raises db Query then Inl (ClientError Query)
      else Inr (filter (\<lambda>(k, a). fst k = uid \<and> key_le lo (snd k) \<and> key_le (snd k) hi)
                  (table db)))"

definition get_item :: "dynamodb \<Rightarrow> key \<Rightarrow> error + attrs option" where
  "get_item db k =
     (if raises db GetItem then Inl (ClientError GetItem) else Inr (map_of (table db) k))"

definition put_item :: "dynamodb \<Rightarrow> key \<Rightarrow> attrs \<Rightarrow> error + dynamodb" where
  "put_item db k item =
     (if raises db PutItem then Inl (ClientError PutItem)
      else Inr (db\<lparr>table := AList.update k item (table db)\<rparr>))"

definition delete_item :: "dynamodb \<Rightarrow> key \<Rightarrow> error + dynamodb" where
  "delete_item db k =
     (if raises db DeleteItem then Inl (ClientError DeleteItem)
      else Inr (db\<lparr>table := AList.delete k (table db)\<rparr>))"

text \<open>
  Update expressions, as far as the module writes them: \<^verbatim>\<open>ADD a :v\<close>,
  \<^verbatim>\<open>SET a = :v\<close> and \<^verbatim>\<open>SET a = if_not_exists(p, :v)\<close>. \<^verbatim>\<open>ADD\<close> on a missing
  attribute starts from zero and is rejected on a non-number; the operand of a
  \<^verbatim>\<open>SET\<close> is read from the item as it was before the update. An update of a missing
  item creates it.
\<close>

datatype operand = Value attr | If_not_exists string attr

datatype action = ADD string attr | SET string operand

fun apply_action :: "attrs \<Rightarrow> attrs \<Rightarrow> action \<Rightarrow> error + attrs" where
  "apply_action orig cur (ADD a (N d)) =
     (case cur a of
        None \<Rightarrow> Inr (cur(a \<mapsto> N d))
      | Some (N v) \<Rightarrow> Inr (cur(a \<mapsto> N (v + d)))
      | Some (S _) \<Rightarrow> Inl ValidationException)"
| "apply_action orig cur (ADD a (S _)) = Inl ValidationException"
| "apply_action orig cur (SET a (Value v)) = Inr (cur(a \<mapsto> v))"
| "apply_action orig cur (SET a (If_not_exists p v)) =
     Inr (cur(a \<mapsto> (case orig p of Some old \<Rightarrow> old | None \<Rightarrow> v)))"

fun apply_actions :: "attrs \<Rightarrow> attrs \<Rightarrow> action list \<Rightarrow> error + attrs" where
  "apply_actions orig cur [] = Inr cur"
| "apply_actions orig cur (x # xs) =
     (case apply_action orig cur x of
        Inl e \<Rightarrow> Inl e
      | Inr cur' \<Rightarrow> apply_actions orig cur' xs)"

definition update_item :: "dynamodb \<Rightarrow> key \<Rightarrow> action list \<Rightarrow> error + dynamodb" where
  "update_item db k acts =
     (if raises db UpdateItem then Inl (ClientError UpdateItem)
      else (let old = (case map_of (table db) k of Some a \<Rightarrow> a | None \<Rightarrow> Map.empty)
            in case apply_actions old old acts of
                 Inl e \<Rightarrow> Inl e
               | Inr new \<Rightarrow> Inr (db\<lparr>table := AList.update k new (table db)\<rparr>)))"

text \<open>\<^verbatim>\<open>int(item.get(a, {}).get("N", "0"))\<close>\<close>

definition num_attr :: "string \<Rightarrow> attrs \<Rightarrow> int" where
  "num_attr a item = (case item a of Some (N n) \<Rightarrow> n | _ \<Rightarrow> 0)"


section \<open>Period configurations\<close>

text \<open>
  A period configuration is the dictionary \<^verbatim>\<open>period_config\<close> of the module, with its
  function-valued entries. \<^verbatim>\<open>ttl_delta\<close> is a duration or a callable.
\<close>

datatype ttl_delta_entry = Fixed timedelta | Callable "datetime \<Rightarrow> timedelta"

record period_config =
  name :: string
  description :: string
  id_format :: "datetime \<Rightarrow> string"
  round_time :: "datetime \<Rightarrow> datetime"
  ttl_delta :: ttl_delta_entry
  query_window :: "timedelta option"
  input_limit :: int
  output_limit :: int
  prefix :: string
  aggregate :: bool

text \<open>\<^verbatim>\<open>limit or int(os.environ.get(k, d))\<close>: an absent or zero argument is falsy.\<close>

definition limit_or_env :: "int option \<Rightarrow> environ \<Rightarrow> string \<Rightarrow> int \<Rightarrow> int" where
  "limit_or_env limit env k d =
     (case limit of
        Some n \<Rightarrow> if n \<noteq> 0 then n else env_int env k d
      | None \<Rightarrow> env_int env k d)"

definition create_ten_minute_period ::
  "environ \<Rightarrow> int option \<Rightarrow> int option \<Rightarrow> period_config" where
  "create_ten_minute_period env input_limit' output_limit' =
     \<lparr>name = ''10min'',
      description = ''daily'',
      id_format = (\<lambda>dt. ''10min:'' @ strftime_YmdHM dt),
      round_time = (\<lambda>dt. dt\<lparr>minute := (minute dt div 10) * 10, second := 0,
                               microsecond := 0\<rparr>),
      ttl_delta = Fixed (timedelta_days 1),
      query_window = Some (timedelta_days 1),
      input_limit = limit_or_env input_limit' env ''DAILY_INPUT_LIMIT'' 10000,
      output_limit = limit_or_env output_limit' env ''DAILY_OUTPUT_LIMIT'' 20000,
      prefix = ''10min:'',
      aggregate = True\<rparr>"

definition create_monthly_period ::
  "environ \<Rightarrow> int option \<Rightarrow> int option \<Rightarrow> period_config" where
  "create_monthly_period env input_limit' output_limit' =
     \<lparr>name = ''monthly'',
      description = ''monthly'',
      id_format = (\<lambda>dt. ''monthly:'' @ strftime_Ym dt),
      round_time = (\<lambda>dt. dt\<lparr>day := 1, hour := 0, minute := 0, second := 0,
                               microsecond := 0\<rparr>),
      ttl_delta = Callable next_month_delta,
      query_window = None,
      input_limit = limit_or_env input_limit' env ''MONTHLY_INPUT_LIMIT'' 100000,
      output_limit = limit_or_env output_limit' env ''MONTHLY_OUTPUT_LIMIT'' 200000,
      prefix = ''monthly:'',
      aggregate = False\<rparr>"

definition create_hourly_period ::
  "environ \<Rightarrow> int option \<Rightarrow> int option \<Rightarrow> period_config" where
  "create_hourly_period env input_limit' output_limit' =
     \<lparr>name = ''hourly'',
      description = ''hourly'',
      id_format = (\<lambda>dt. ''hourly:'' @ strftime_YmdH dt),
      round_time = (\<lambda>dt. dt\<lparr>minute := 0, second := 0, microsecond := 0\<rparr>),
      ttl_delta = Fixed (timedelta_days 1),
      query_window = None,
      input_limit = limit_or_env input_limit' env ''HOURLY_INPUT_LIMIT'' 1000,
      output_limit = limit_or_env output_limit' env ''HOURLY_OUTPUT_LIMIT'' 2000,
      prefix = ''hourly:'',
      aggregate = False\<rparr>"


section \<open>TokenMeter\<close>

text \<open>
  A meter is its period configuration: \<^verbatim>\<open>meter.name\<close> and \<^verbatim>\<open>meter.description\<close> are
  copies of the configuration's entries, and every meter and the reservation manager use
  the same table. The clock reading \<^verbatim>\<open>datetime.datetime.now()\<close> is the argument
  \<open>now\<close>. The usage dictionary always has both of its keys, so it is a record (and
  the branch of \<^verbatim>\<open>is_limit_exceeded\<close> that repairs a dictionary lacking a key is never
  taken).
\<close>

record usage =
  input_tokens :: int
  output_tokens :: int

fun sum_period_usage_loop :: "(key \<times> attrs) list \<Rightarrow> int \<Rightarrow> int \<Rightarrow> usage" where
  "sum_period_usage_loop [] total_input total_output =
     \<lparr>input_tokens = total_input, output_tokens = total_output\<rparr>"
| "sum_period_usage_loop (item # items) total_input total_output =
     sum_period_usage_loop items
       (total_input + num_attr ''input_tokens'' (snd item))
       (total_output + num_attr ''output_tokens'' (snd item))"

definition sum_period_usage :: "(key \<times> attrs) list \<Rightarrow> usage" where
  "sum_period_usage items = sum_period_usage_loop items 0 0"

definition TokenMeter_get_usage ::
  "period_config \<Rightarrow> dynamodb \<Rightarrow> string \<Rightarrow> datetime \<Rightarrow> usage" where
  "TokenMeter_get_usage cfg db user_id now =
     (if aggregate cfg then
        (let all_of_this_type =
               (case query_begins_with db user_id (prefix cfg) of
                  Inr items \<Rightarrow> sum_period_usage items
                | Inl e \<Rightarrow> \<lparr>input_tokens = 0, output_tokens = 0\<rparr>)
         in case query_window cfg of
              None \<Rightarrow> all_of_this_type
            | Some window \<Rightarrow>
                if window \<noteq> 0 then
                  (let start_time = dt_sub now window;
                       start_key = prefix cfg @ strftime_YmdHM start_time;
                       end_key = prefix cfg @ strftime_YmdHM now
                   in case query_between db user_id start_key end_key of
                        Inr items \<Rightarrow> sum_period_usage items
                      | Inl e \<Rightarrow> \<lparr>input_tokens = 0, output_tokens = 0\<rparr>)
                else all_of_this_type)
      else
        (let period_id = id_format cfg now
         in case get_item db (user_id, period_id) of
              Inr response \<Rightarrow>
                (let item = (case response of Some a \<Rightarrow> a | None \<Rightarrow> Map.empty)
                 in \<lparr>input_tokens = num_attr ''input_tokens'' item,
                     output_tokens = num_attr ''output_tokens'' item\<rparr>)
            | Inl e \<Rightarrow> \<lparr>input_tokens = 0, output_tokens = 0\<rparr>))"

definition TokenMeter_is_limit_exceeded ::
  "period_config \<Rightarrow> dynamodb \<Rightarrow> string \<Rightarrow> datetime \<Rightarrow> bool \<times> string option \<times> usage" where
  "TokenMeter_is_limit_exceeded cfg db user_id now =
     (let usage = TokenMeter_get_usage cfg db user_id now
      in if input_tokens usage \<ge> input_limit cfg then (True, Some ''input'', usage)
         else if output_tokens usage \<ge> output_limit cfg then (True, Some ''output'', usage)
         else (False, None, usage))"

text \<open>
  The update expression of \<^verbatim>\<open>update_usage\<close> is
  \<^verbatim>\<open>ADD input_tokens :i, output_tokens :o SET #ts = if_not_exists(#ts, :ts), #ttl = :ttl\<close>
  with \<^verbatim>\<open>#ts\<close> the attribute \<^verbatim>\<open>timestamp\<close> and \<^verbatim>\<open>#ttl\<close> the attribute \<^verbatim>\<open>ttl\<close>.
\<close>

definition ttl_value_of :: "period_config \<Rightarrow> datetime \<Rightarrow> int" where
  "ttl_value_of cfg now =
     (let delta = (case ttl_delta cfg of Callable f \<Rightarrow> f now | Fixed d \<Rightarrow> d);
          ttl_time = dt_add now delta
      in timestamp ttl_time)"

definition TokenMeter_update_usage ::
  "period_config \<Rightarrow> dynamodb \<Rightarrow> string \<Rightarrow> int \<Rightarrow> int \<Rightarrow> datetime \<Rightarrow> bool \<times> dynamodb" where
  "TokenMeter_update_usage cfg db user_id input_tokens' output_tokens' now =
     (let rounded_time = round_time cfg now;
          period_id = id_format cfg rounded_time;
          ttl_value = ttl_value_of cfg now
      in case update_item db (user_id, period_id)
                [ADD ''input_tokens'' (N input_tokens'),
                 ADD ''output_tokens'' (N output_tokens'),
                 SET ''timestamp'' (If_not_exists ''timestamp'' (N (timestamp now))),
                 SET ''ttl'' (Value (N ttl_value))] of
           Inr db' \<Rightarrow> (True, db')
         | Inl e \<Rightarrow> (False, db))"


section \<open>TokenReservationManager\<close>

text \<open>
  \<^verbatim>\<open>int(daily_output_limit * 0.5)\<close>: the product is a float and \<^verbatim>\<open>int\<close> cuts it towards
  zero. The float product is exact for limits below \<open>2^53\<close> in absolute value, where the
  result is the halved limit cut towards zero.
\<close>

definition int_times_half :: "int \<Rightarrow> int" where
  "int_times_half n = (if 0 \<le> n then n div 2 else - ((- n) div 2))"

record TokenReservationManager =
  reservation_ttl_minutes :: int

definition TokenReservationManager_init :: "environ \<Rightarrow> TokenReservationManager" where
  "TokenReservationManager_init env =
     \<lparr>reservation_ttl_minutes = env_int env ''RESERVATION_TTL_MINUTES'' 10\<rparr>"

text \<open>
  \<^verbatim>\<open>create_reservation\<close>; \<open>reservation_uuid\<close> is the text of the fresh
  \<^verbatim>\<open>uuid.uuid4()\<close>.
\<close>

definition TokenReservationManager_create_reservation ::
  "TokenReservationManager \<Rightarrow> environ \<Rightarrow> dynamodb \<Rightarrow> string \<Rightarrow> datetime \<Rightarrow> string
     \<Rightarrow> string option \<times> dynamodb" where
  "TokenReservationManager_create_reservation mgr env db user_id now reservation_uuid =
     (let daily_output_limit = env_int env ''DAILY_OUTPUT_LIMIT'' 20000;
          reservation_amount = int_times_half daily_output_limit;
          date_str = strftime_Ymd now;
          reservation_id = ''reservation:daily:'' @ date_str @ '':'' @ reservation_uuid;
          ttl_time = dt_add now (timedelta_minutes (reservation_ttl_minutes mgr));
          ttl_value = timestamp ttl_time
      in case put_item db (user_id, reservation_id)
                [''input_tokens'' \<mapsto> N 0,
                 ''output_tokens'' \<mapsto> N reservation_amount,
                 ''timestamp'' \<mapsto> N (timestamp now),
                 ''ttl'' \<mapsto> N ttl_value] of
           Inr db' \<Rightarrow> (Some reservation_id, db')
         | Inl e \<Rightarrow> (None, db))"

definition TokenReservationManager_remove_reservation ::
  "TokenReservationManager \<Rightarrow> dynamodb \<Rightarrow> string \<Rightarrow> string \<Rightarrow> bool \<times> dynamodb" where
  "TokenReservationManager_remove_reservation mgr db user_id reservation_id =
     (case delete_item db (user_id, reservation_id) of
        Inr db' \<Rightarrow> (True, db')
      | Inl e \<Rightarrow> (False, db))"

record reservation =
  r_reservation_id :: string
  r_output_tokens :: int
  r_timestamp :: int

fun get_active_reservations_loop :: "(key \<times> attrs) list \<Rightarrow> reservation list \<Rightarrow> reservation list"
  where
  "get_active_reservations_loop [] reservations = reservations"
| "get_active_reservations_loop (item # items) reservations =
     get_active_reservations_loop items
       (reservations @
          [\<lparr>r_reservation_id = snd (fst item),
            r_output_tokens = num_attr ''output_tokens'' (snd item),
            r_timestamp = num_attr ''timestamp'' (snd item)\<rparr>])"

definition get_active_reservations ::
  "TokenReservationManager \<Rightarrow> dynamodb \<Rightarrow> string \<Rightarrow> datetime \<Rightarrow> reservation list" where
  "get_active_reservations mgr db user_id now =
     (let date_str = strftime_Ymd now;
          reservation_prefix = ''reservation:daily:'' @ date_str @ '':''
      in case query_begins_with db user_id reservation_prefix of
           Inr items \<Rightarrow> get_active_reservations_loop items []
         | Inl e \<Rightarrow> [])"

definition get_total_reserved_tokens ::
  "TokenReservationManager \<Rightarrow> dynamodb \<Rightarrow> string \<Rightarrow> datetime \<Rightarrow> int" where
  "get_total_reserved_tokens mgr db user_id now =
     sum_list (map r_output_tokens (get_active_reservations mgr db user_id now))"

text \<open>
  \<^verbatim>\<open>cleanup_expired_reservations\<close> is the one place of the module that reads an item's
  \<^verbatim>\<open>ttl\<close>: an item counts as expired when
  \<^verbatim>\<open>ttl_value > 0 and current_timestamp > ttl_value\<close>.
\<close>

definition expired :: "int \<Rightarrow> attrs \<Rightarrow> bool" where
  "expired current_timestamp item =
     (let ttl_value = num_attr ''ttl'' item
      in ttl_value > 0 \<and> current_timestamp > ttl_value)"

fun cleanup_loop ::
  "TokenReservationManager \<Rightarrow> string \<Rightarrow> int \<Rightarrow> (key \<times> attrs) list \<Rightarrow> dynamodb \<Rightarrow> int
     \<Rightarrow> int \<times> dynamodb" where
  "cleanup_loop mgr user_id current_timestamp [] db cleaned_count = (cleaned_count, db)"
| "cleanup_loop mgr user_id current_timestamp (item # items) db cleaned_count =
     (if expired current_timestamp (snd item) then
        (case TokenReservationManager_remove_reservation mgr db user_id (snd (fst item)) of
           (True, db') \<Rightarrow> cleanup_loop mgr user_id current_timestamp items db' (cleaned_count + 1)
         | (False, db') \<Rightarrow> cleanup_loop mgr user_id current_timestamp items db' cleaned_count)
      else cleanup_loop mgr user_id current_timestamp items db cleaned_count)"

definition cleanup_expired_reservations ::
  "TokenReservationManager \<Rightarrow> dynamodb \<Rightarrow> string \<Rightarrow> datetime \<Rightarrow> int \<times> dynamodb" where
  "cleanup_expired_reservations mgr db user_id now =
     (let current_timestamp = timestamp now
      in case query_begins_with db user_id ''reservation:'' of
           Inr items \<Rightarrow> cleanup_loop mgr user_id current_timestamp items db 0
         | Inl e \<Rightarrow> (0, db))"


section \<open>TokenLimiter\<close>

text \<open>
  The limiter holds its meters in order and the reservation manager. An operation of the
  limiter reads the clock once per meter and once per manager call; these readings are
  the one argument \<open>now\<close>, and the table is changed by the operation alone while it
  runs.
\<close>

record TokenLimiter =
  meters :: "period_config list"
  reservation_manager :: TokenReservationManager

definition TokenLimiter_init :: "environ \<Rightarrow> period_config list option \<Rightarrow> TokenLimiter" where
  "TokenLimiter_init env meters' =
     \<lparr>meters = (case meters' of
                  None \<Rightarrow> [create_ten_minute_period env None None,
                           create_monthly_period env None None]
                | Some ms \<Rightarrow> ms),
      reservation_manager = TokenReservationManager_init env\<rparr>"

text \<open>
  The dictionary \<^verbatim>\<open>total_usage\<close>: the six keys it is created with, and the three keys
  \<^verbatim>\<open>is_limit_exceeded_with_reservation\<close> adds (absent until then).
\<close>

record usage_data = usage +
  monthly_input_tokens :: int
  monthly_output_tokens :: int
  daily_input_tokens :: int
  daily_output_tokens :: int
  total_reserved_tokens :: "int option"
  new_reservation_amount :: "int option"
  total_with_reservation :: "int option"

definition initial_total_usage :: usage_data where
  "initial_total_usage =
     \<lparr>input_tokens = 0, output_tokens = 0,
      monthly_input_tokens = 0, monthly_output_tokens = 0,
      daily_input_tokens = 0, daily_output_tokens = 0,
      total_reserved_tokens = None, new_reservation_amount = None,
      total_with_reservation = None\<rparr>"

text \<open>One round of the loop of \<^verbatim>\<open>TokenLimiter.is_limit_exceeded\<close>: the two updates of
  \<^verbatim>\<open>total_usage\<close> by a meter's usage.\<close>

definition collect_usage :: "period_config \<Rightarrow> usage \<Rightarrow> usage_data \<Rightarrow> usage_data" where
  "collect_usage meter usage total_usage =
     (let labelled =
            (if name meter = ''monthly'' then
               total_usage\<lparr>monthly_input_tokens := input_tokens usage,
                            monthly_output_tokens := output_tokens usage\<rparr>
             else if name meter = ''10min'' then
               total_usage\<lparr>daily_input_tokens := input_tokens usage,
                            daily_output_tokens := output_tokens usage\<rparr>
             else total_usage)
      in labelled\<lparr>input_tokens := max (input_tokens labelled) (input_tokens usage),
                   output_tokens := max (output_tokens labelled) (output_tokens usage)\<rparr>)"

fun is_limit_exceeded_loop ::
  "period_config list \<Rightarrow> dynamodb \<Rightarrow> string \<Rightarrow> datetime \<Rightarrow> usage_data
     \<Rightarrow> bool \<times> string option \<times> string option \<times> usage_data" where
  "is_limit_exceeded_loop [] db user_id now total_usage = (False, None, None, total_usage)"
| "is_limit_exceeded_loop (meter # rest) db user_id now total_usage =
     (case TokenMeter_is_limit_exceeded meter db user_id now of
        (is_exceeded, token_type, usage) \<Rightarrow>
          (let total_usage' = collect_usage meter usage total_usage
           in if is_exceeded then (True, token_type, Some (description meter), total_usage')
              else is_limit_exceeded_loop rest db user_id now total_usage'))"

definition TokenLimiter_is_limit_exceeded ::
  "TokenLimiter \<Rightarrow> dynamodb \<Rightarrow> string \<Rightarrow> datetime
     \<Rightarrow> bool \<times> string option \<times> string option \<times> usage_data" where
  "TokenLimiter_is_limit_exceeded limiter db user_id now =
     is_limit_exceeded_loop (meters limiter) db user_id now initial_total_usage"

fun update_usage_loop ::
  "period_config list \<Rightarrow> dynamodb \<Rightarrow> string \<Rightarrow> int \<Rightarrow> int \<Rightarrow> datetime \<Rightarrow> bool
     \<Rightarrow> bool \<times> dynamodb" where
  "update_usage_loop [] db user_id input_tokens' output_tokens' now success = (success, db)"
| "update_usage_loop (meter # rest) db user_id input_tokens' output_tokens' now success =
     (case TokenMeter_update_usage meter db user_id input_tokens' output_tokens' now of
        (ok, db') \<Rightarrow>
          update_usage_loop rest db' user_id input_tokens' output_tokens' now
            (if \<not> ok then False else success))"

definition TokenLimiter_update_usage ::
  "TokenLimiter \<Rightarrow> dynamodb \<Rightarrow> string \<Rightarrow> int \<Rightarrow> int \<Rightarrow> datetime \<Rightarrow> bool \<times> dynamodb" where
  "TokenLimiter_update_usage limiter db user_id input_tokens' output_tokens' now =
     update_usage_loop (meters limiter) db user_id input_tokens' output_tokens' now True"

definition is_limit_exceeded_with_reservation ::
  "TokenLimiter \<Rightarrow> environ \<Rightarrow> dynamodb \<Rightarrow> string \<Rightarrow> datetime
     \<Rightarrow> bool \<times> string option \<times> string option \<times> usage_data" where
  "is_limit_exceeded_with_reservation limiter env db user_id now =
     (case TokenLimiter_is_limit_exceeded limiter db user_id now of
        (is_exceeded, token_type, period', usage_data) \<Rightarrow>
          if is_exceeded then (True, token_type, period', usage_data)
          else
            (let daily_output_limit = env_int env ''DAILY_OUTPUT_LIMIT'' 20000;
                 reservation_amount = int_times_half daily_output_limit;
                 total_reserved =
                   get_total_reserved_tokens (reservation_manager limiter) db user_id now;
                 current_daily_output = daily_output_tokens usage_data;
                 total_with_new_reservation =
                   current_daily_output + total_reserved + reservation_amount;
                 usage_data' =
                   usage_data\<lparr>total_reserved_tokens := Some total_reserved,
                              new_reservation_amount := Some reservation_amount,
                              total_with_reservation := Some total_with_new_reservation\<rparr>
             in if total_with_new_reservation > daily_output_limit
                then (True, Some ''output'', Some ''daily'', usage_data')
                else (False, None, None, usage_data')))"

definition TokenLimiter_create_reservation ::
  "TokenLimiter \<Rightarrow> environ \<Rightarrow> dynamodb \<Rightarrow> string \<Rightarrow> datetime \<Rightarrow> string
     \<Rightarrow> string option \<times> dynamodb" where
  "TokenLimiter_create_reservation limiter env db user_id now reservation_uuid =
     (case is_limit_exceeded_with_reservation limiter env db user_id now of
        (is_exceeded, token_type, period', usage_data) \<Rightarrow>
          if is_exceeded then (None, db)
          else TokenReservationManager_create_reservation (reservation_manager limiter)
                 env db user_id now reservation_uuid)"

definition TokenLimiter_remove_reservation ::
  "TokenLimiter \<Rightarrow> dynamodb \<Rightarrow> string \<Rightarrow> string \<Rightarrow> bool \<times> dynamodb" where
  "TokenLimiter_remove_reservation limiter db user_id reservation_id =
     TokenReservationManager_remove_reservation (reservation_manager limiter)
       db user_id reservation_id"

text \<open>
  \<^verbatim>\<open>return {meter.name: meter.period_config["input_limit"] for meter in self.meters}\<close>:
  a later meter of the same name overwrites an earlier one.
\<close>

fun get_meter_limits_loop :: "period_config list \<Rightarrow> (string \<rightharpoonup> int) \<Rightarrow> (string \<rightharpoonup> int)" where
  "get_meter_limits_loop [] d = d"
| "get_meter_limits_loop (meter # rest) d =
     get_meter_limits_loop rest (d(name meter \<mapsto> input_limit meter))"

definition get_meter_limits :: "TokenLimiter \<Rightarrow> (string \<rightharpoonup> int)" where
  "get_meter_limits limiter = get_meter_limits_loop (meters limiter) Map.empty"


section \<open>The admission part of the request handler\<close>

text \<open>
  \<^verbatim>\<open>lambda_handler\<close> of the chatbot handler, from the limit check of an authorised
  user \<open>sub\<close> to the point where it starts processing the events of the request. It
  either publishes an error event and returns, or goes on with a reservation. The event
  is kept as its error type and its details; publishing it to the channel is outside the
  model.
\<close>

record error_details =
  tokenType :: "string option"
  period :: "string option"
  tokenUsage :: usage_data

datatype admission = Error_event string error_details | Processing string

definition lambda_handler_admission ::
  "TokenLimiter \<Rightarrow> environ \<Rightarrow> dynamodb \<Rightarrow> string \<Rightarrow> datetime \<Rightarrow> string
     \<Rightarrow> admission \<times> dynamodb" where
  "lambda_handler_admission token_limiter env db sub now reservation_uuid =
     (case TokenLimiter_is_limit_exceeded token_limiter db sub now of
        (is_exceeded, token_type, period', token_usage) \<Rightarrow>
          if is_exceeded then
            (Error_event ''token_limit_exceeded''
               \<lparr>tokenType = token_type, period = period', tokenUsage = token_usage\<rparr>, db)
          else
            (case TokenLimiter_create_reservation token_limiter env db sub now
                    reservation_uuid of
               (None, db') \<Rightarrow>
                 (Error_event ''reservation_failed''
                    \<lparr>tokenType = Some ''output'', period = Some ''daily'',
                     tokenUsage = token_usage\<rparr>, db')
             | (Some reservation_id, db') \<Rightarrow> (Processing reservation_id, db')))"


section \<open>Notions used in the statements\<close>

text \<open>
  What a read of one bucket sees: the item under a key, or the empty item, and a counter
  of it as \<^verbatim>\<open>_get_usage\<close> reads it.
\<close>

definition bucket :: "dynamodb \<Rightarrow> key \<Rightarrow> attrs" where
  "bucket db k = (case map_of (table db) k of Some a \<Rightarrow> a | None \<Rightarrow> Map.empty)"

definition counter :: "string \<Rightarrow> dynamodb \<Rightarrow> key \<Rightarrow> int" where
  "counter a db k = num_attr a (bucket db k)"

text \<open>The item that the update expression of \<^verbatim>\<open>update_usage\<close> makes of an item.\<close>

definition usage_item :: "attrs \<Rightarrow> int \<Rightarrow> int \<Rightarrow> int \<Rightarrow> int \<Rightarrow> attrs" where
  "usage_item old i o' ts ttl =
     old(''input_tokens'' \<mapsto> N (num_attr ''input_tokens'' old + i),
         ''output_tokens'' \<mapsto> N (num_attr ''output_tokens'' old + o'),
         ''timestamp'' \<mapsto> (case old ''timestamp'' of Some v \<Rightarrow> v | None \<Rightarrow> N ts),
         ''ttl'' \<mapsto> N ttl)"

text \<open>A run of \<^verbatim>\<open>TokenMeter.update_usage\<close> calls, by any meters, users and times.\<close>

type_synonym record_call = "period_config \<times> string \<times> int \<times> int \<times> datetime"

fun record_calls :: "record_call list \<Rightarrow> dynamodb \<Rightarrow> dynamodb" where
  "record_calls [] db = db"
| "record_calls ((cfg, user_id, input_tokens', output_tokens', now) # calls) db =
     record_calls calls
       (snd (TokenMeter_update_usage cfg db user_id input_tokens' output_tokens' now))"

text \<open>Concrete data: a client that never raises, and times of 8 January 2025.\<close>

definition never_raises :: "api \<Rightarrow> bool" where
  "never_raises a = False"

definition jan8 :: "int \<Rightarrow> int \<Rightarrow> int \<Rightarrow> datetime" where
  "jan8 h m s = \<lparr>year = 2025, month = 1, day = 8, hour = h, minute = m, second = s,
                 microsecond = 0\<rparr>"

definition empty_db :: dynamodb where
  "empty_db = \<lparr>table = [], raises = never_raises\<rparr>"

definition default_ten_minute :: period_config where
  "default_ten_minute = create_ten_minute_period Map.empty None None"

text \<open>Two records into the same ten-minute bucket, at 12:01:00 and at 12:02:00.\<close>

definition recorded_once :: dynamodb where
  "recorded_once =
     snd (TokenMeter_update_usage default_ten_minute empty_db ''u'' 10 20 (jan8 12 1 0))"

definition recorded_twice :: dynamodb where
  "recorded_twice =
     snd (TokenMeter_update_usage default_ten_minute recorded_once ''u'' 1 2 (jan8 12 2 0))"


text \<open>
  The records of a principal that an aggregate policy reads: those under the policy's
  prefix, within the window's range of keys when the policy has a window.
\<close>

definition window_records ::
  "period_config \<Rightarrow> dynamodb \<Rightarrow> string \<Rightarrow> datetime \<Rightarrow> (key \<times> attrs) list" where
  "window_records cfg db user_id now =
     filter (\<lambda>(k, a). fst k = user_id \<and>
               (case query_window cfg of
                  None \<Rightarrow> begins_with (snd k) (prefix cfg)
                | Some window \<Rightarrow>
                    if window \<noteq> 0 then
                      key_le (prefix cfg @ strftime_YmdHM (dt_sub now window)) (snd k) \<and>
                      key_le (snd k) (prefix cfg @ strftime_YmdHM now)
                    else begins_with (snd k) (prefix cfg)))
       (table db)"

definition zero_usage :: usage where
  "zero_usage = \<lparr>input_tokens = 0, output_tokens = 0\<rparr>"

text \<open>The API operation by which a policy reads its usage.\<close>

definition read_of :: "period_config \<Rightarrow> api" where
  "read_of cfg = (if aggregate cfg then Query else GetItem)"

text \<open>The reservation records of a principal that are dated today.\<close>

definition reservation_prefix :: "datetime \<Rightarrow> string" where
  "reservation_prefix now = ''reservation:daily:'' @ strftime_Ymd now @ '':''"

definition todays_reservations :: "dynamodb \<Rightarrow> string \<Rightarrow> datetime \<Rightarrow> (key \<times> attrs) list" where
  "todays_reservations db user_id now =
     filter (\<lambda>(k, a). fst k = user_id \<and> begins_with (snd k) (reservation_prefix now))
       (table db)"

text \<open>
  The total reservation as the specification words it: the sum of the reserved output
  tokens over today's reservation records of the principal whose time to live has not
  passed.
\<close>

definition total_reserved_spec :: "dynamodb \<Rightarrow> string \<Rightarrow> datetime \<Rightarrow> int" where
  "total_reserved_spec db user_id now =
     sum_list (map (\<lambda>item. num_attr ''output_tokens'' (snd item))
       (filter (\<lambda>item. \<not> expired (timestamp now) (snd item))
          (todays_reservations db user_id now)))"

text \<open>More concrete data: a client whose every call raises, the default monthly policy,
  the default reservation manager, a table with one record of 11:55, and a table with one
  reservation made at 09:00 (its time to live ends at 09:10).\<close>

definition always_raises :: "api \<Rightarrow> bool" where
  "always_raises a = True"

definition default_monthly :: period_config where
  "default_monthly = create_monthly_period Map.empty None None"

definition default_manager :: TokenReservationManager where
  "default_manager = TokenReservationManager_init Map.empty"

definition recorded_before_noon :: dynamodb where
  "recorded_before_noon =
     snd (TokenMeter_update_usage default_ten_minute empty_db ''u'' 5 7 (jan8 11 55 0))"

definition reserved_at_nine :: dynamodb where
  "reserved_at_nine =
     snd (TokenReservationManager_create_reservation default_manager Map.empty empty_db
            ''u'' (jan8 9 0 0) ''uuid1'')"


text \<open>
  The size of a reservation, the key of a reservation and the item written for it, as
  \<^verbatim>\<open>create_reservation\<close> computes them.
\<close>

definition reservation_amount :: "environ \<Rightarrow> int" where
  "reservation_amount env = int_times_half (env_int env ''DAILY_OUTPUT_LIMIT'' 20000)"

definition reservation_id_of :: "datetime \<Rightarrow> string \<Rightarrow> string" where
  "reservation_id_of now reservation_uuid =
     ''reservation:daily:'' @ strftime_Ymd now @ '':'' @ reservation_uuid"

definition reservation_item :: "TokenReservationManager \<Rightarrow> environ \<Rightarrow> datetime \<Rightarrow> attrs" where
  "reservation_item mgr env now =
     [''input_tokens'' \<mapsto> N 0,
      ''output_tokens'' \<mapsto> N (reservation_amount env),
      ''timestamp'' \<mapsto> N (timestamp now),
      ''ttl'' \<mapsto> N (timestamp (dt_add now (timedelta_minutes (reservation_ttl_minutes mgr))))]"

text \<open>The limiter of the handler, a limiter whose ten-minute meter has the output limit
  2000, a client whose writes of items raise, and a table with two reservations.\<close>

definition default_limiter :: TokenLimiter where
  "default_limiter = TokenLimiter_init Map.empty None"

definition small_limiter :: TokenLimiter where
  "small_limiter =
     TokenLimiter_init Map.empty
       (Some [create_ten_minute_period Map.empty None (Some 2000),
              create_monthly_period Map.empty None None])"

definition only_put_raises :: "api \<Rightarrow> bool" where
  "only_put_raises a = (a = PutItem)"

definition put_failing_db :: dynamodb where
  "put_failing_db = \<lparr>table = [], raises = only_put_raises\<rparr>"

definition two_reservations :: dynamodb where
  "two_reservations =
     snd (TokenReservationManager_create_reservation default_manager Map.empty reserved_at_nine
            ''u'' (jan8 9 1 0) ''uuid2'')"


text \<open>
  The meters that \<^verbatim>\<open>TokenLimiter.is_limit_exceeded\<close> reads: those before the first
  exceeded meter, and that meter. \<open>collect_all\<close> is what the rounds of the loop make of
  \<^verbatim>\<open>total_usage\<close> over a list of meters.
\<close>

definition exceeded_at :: "dynamodb \<Rightarrow> string \<Rightarrow> datetime \<Rightarrow> period_config \<Rightarrow> bool" where
  "exceeded_at db user_id now meter = fst (TokenMeter_is_limit_exceeded meter db user_id now)"

definition observed ::
  "period_config list \<Rightarrow> dynamodb \<Rightarrow> string \<Rightarrow> datetime \<Rightarrow> period_config list" where
  "observed ms db user_id now =
     takeWhile (\<lambda>m. \<not> exceeded_at db user_id now m) ms @
     take 1 (dropWhile (\<lambda>m. \<not> exceeded_at db user_id now m) ms)"

definition collect_all ::
  "dynamodb \<Rightarrow> string \<Rightarrow> datetime \<Rightarrow> period_config list \<Rightarrow> usage_data \<Rightarrow> usage_data" where
  "collect_all db user_id now ms total_usage =
     foldl (\<lambda>t m. collect_usage m (TokenMeter_get_usage m db user_id now) t) total_usage ms"

text \<open>A table after one record of 10 input and 25000 output tokens through the default
  limiter, at 12:01:00.\<close>

definition recorded_over_limit :: dynamodb where
  "recorded_over_limit =
     snd (TokenLimiter_update_usage default_limiter empty_db ''u'' 10 25000 (jan8 12 1 0))"


text \<open>Further concrete data: times of 5 January 2025; a table after a record of 1500
  output tokens through the limiter with the small ten-minute limit; a table after a record
  on 5 January and one on 8 January through the default limiter; an environment with the
  daily output limit 1; and a table after a record with negative deltas.\<close>

definition jan5 :: "int \<Rightarrow> int \<Rightarrow> int \<Rightarrow> datetime" where
  "jan5 h m s = \<lparr>year = 2025, month = 1, day = 5, hour = h, minute = m, second = s,
                 microsecond = 0\<rparr>"

definition small_recorded :: dynamodb where
  "small_recorded =
     snd (TokenLimiter_update_usage small_limiter empty_db ''u'' 100 1500 (jan8 12 1 0))"

definition recorded_over_month :: dynamodb where
  "recorded_over_month =
     snd (TokenLimiter_update_usage default_limiter
            (snd (TokenLimiter_update_usage default_limiter empty_db ''u'' 50 125000
                    (jan5 12 0 0)))
            ''u'' 10 25000 (jan8 12 1 0))"

definition limit_one_env :: environ where
  "limit_one_env = [''DAILY_OUTPUT_LIMIT'' \<mapsto> 1]"

definition recorded_negative :: dynamodb where
  "recorded_negative =
     snd (TokenMeter_update_usage default_ten_minute recorded_once ''u'' (- 3) (- 4)
            (jan8 12 2 0))"


section \<open>Properties of the table operations\<close>

lemma apply_usage_actions:
  "apply_actions old old
     [ADD ''input_tokens'' (N i), ADD ''output_tokens'' (N o'),
      SET ''timestamp'' (If_not_exists ''timestamp'' (N ts)), SET ''ttl'' (Value (N ttl))]
   = Inr new \<Longrightarrow> new = usage_item old i o' ts ttl"
  by (auto simp: usage_item_def num_attr_def split: option.splits attr.splits)

lemma key_le_between_prefix:
  "key_le (p @ a) k \<Longrightarrow> key_le k (p @ b) \<Longrightarrow> begins_with k p"
proof (induction p arbitrary: k)
  case Nil
  then show ?case by (simp add: begins_with_def)
next
  case (Cons c p)
  then obtain d k' where k: "k = d # k'" by (cases k) auto
  with Cons.prems have "c = d" by (auto split: if_splits)
  with Cons k show ?case by (auto simp: begins_with_def split: if_splits)
qed

lemma update_usage_success:
  assumes "TokenMeter_update_usage cfg db u i o' now = (True, db')"
  shows "db' = db\<lparr>table :=
           AList.update (u, id_format cfg (round_time cfg now))
             (usage_item (bucket db (u, id_format cfg (round_time cfg now)))
                i o' (timestamp now) (ttl_value_of cfg now))
             (table db)\<rparr>"
proof -
  let ?k = "(u, id_format cfg (round_time cfg now))"
  let ?old = "case map_of (table db) ?k of Some a \<Rightarrow> a | None \<Rightarrow> Map.empty"
  let ?acts = "[ADD ''input_tokens'' (N i), ADD ''output_tokens'' (N o'),
      SET ''timestamp'' (If_not_exists ''timestamp'' (N (timestamp now))),
      SET ''ttl'' (Value (N (ttl_value_of cfg now)))]"
  from assms obtain new where a: "apply_actions ?old ?old ?acts = Inr new"
    and d: "db' = db\<lparr>table := AList.update ?k new (table db)\<rparr>"
    by (auto simp add: TokenMeter_update_usage_def update_item_def Let_def
        simp del: apply_actions.simps split: if_splits sum.splits)
  from a have "new = usage_item ?old i o' (timestamp now) (ttl_value_of cfg now)"
    by (rule apply_usage_actions)
  with d show ?thesis by (simp add: bucket_def)
qed

lemma update_usage_failure:
  assumes "TokenMeter_update_usage cfg db u i o' now = (False, db')"
  shows "db' = db"
  using assms by (auto simp: TokenMeter_update_usage_def split: sum.splits)

lemma update_usage_bucket:
  assumes "TokenMeter_update_usage cfg db u i o' now = (True, db')"
  shows "map_of (table db') =
           (map_of (table db))((u, id_format cfg (round_time cfg now)) \<mapsto>
              usage_item (bucket db (u, id_format cfg (round_time cfg now)))
                i o' (timestamp now) (ttl_value_of cfg now))"
  using update_usage_success[OF assms] by (simp add: update_conv')

lemma update_usage_counter_mono:
  assumes "0 \<le> i" "0 \<le> o'" "a = ''input_tokens'' \<or> a = ''output_tokens''"
  shows "counter a db k \<le> counter a (snd (TokenMeter_update_usage cfg db u i o' now)) k"
proof (cases "TokenMeter_update_usage cfg db u i o' now")
  case (Pair ok db')
  show ?thesis
  proof (cases ok)
    case True
    with Pair have "TokenMeter_update_usage cfg db u i o' now = (True, db')" by simp
    from update_usage_bucket[OF this] assms Pair show ?thesis
      by (auto simp: counter_def bucket_def usage_item_def num_attr_def)
  next
    case False
    with Pair have "db' = db" by (simp add: update_usage_failure)
    with Pair show ?thesis by simp
  qed
qed

lemma record_calls_append: "record_calls (xs @ ys) db = record_calls ys (record_calls xs db)"
  by (induction xs db rule: record_calls.induct) simp_all

lemma record_calls_mono:
  assumes "\<forall>(cfg, u, i, o', now) \<in> set calls. 0 \<le> i \<and> 0 \<le> o'"
    and "a = ''input_tokens'' \<or> a = ''output_tokens''"
  shows "counter a db k \<le> counter a (record_calls calls db) k"
  using assms(1)
proof (induction calls db rule: record_calls.induct)
  case (1 db)
  then show ?case by simp
next
  case (2 cfg u i o' now calls db)
  have "counter a db k \<le> counter a (snd (TokenMeter_update_usage cfg db u i o' now)) k"
    using 2(2) assms(2) by (intro update_usage_counter_mono) auto
  also have "\<dots> \<le>
      counter a (record_calls calls (snd (TokenMeter_update_usage cfg db u i o' now))) k"
    using 2 by simp
  finally show ?case by simp
qed

lemma recorded_once_ok:
  "TokenMeter_update_usage default_ten_minute empty_db ''u'' 10 20 (jan8 12 1 0) =
     (True, recorded_once)"
proof -
  have "fst (TokenMeter_update_usage default_ten_minute empty_db ''u'' 10 20 (jan8 12 1 0))"
    by code_simp
  then show ?thesis by (simp add: recorded_once_def prod_eq_iff)
qed


section \<open>Properties of the reads\<close>

lemma sum_period_usage_loop_eq:
  "sum_period_usage_loop items a b =
     \<lparr>input_tokens = a + sum_list (map (\<lambda>it. num_attr ''input_tokens'' (snd it)) items),
      output_tokens = b + sum_list (map (\<lambda>it. num_attr ''output_tokens'' (snd it)) items)\<rparr>"
  by (induction items arbitrary: a b) (simp_all add: add.assoc)

lemma sum_period_usage_eq:
  "sum_period_usage items =
     \<lparr>input_tokens = sum_list (map (\<lambda>it. num_attr ''input_tokens'' (snd it)) items),
      output_tokens = sum_list (map (\<lambda>it. num_attr ''output_tokens'' (snd it)) items)\<rparr>"
  by (simp add: sum_period_usage_def sum_period_usage_loop_eq)

lemma get_usage_aggregate:
  "aggregate cfg \<Longrightarrow>
   TokenMeter_get_usage cfg db u now =
     (if raises db Query then zero_usage else sum_period_usage (window_records cfg db u now))"
  by (simp add: TokenMeter_get_usage_def query_begins_with_def query_between_def Let_def
      window_records_def zero_usage_def split: option.splits)

lemma get_usage_direct:
  "\<not> aggregate cfg \<Longrightarrow>
   TokenMeter_get_usage cfg db u now =
     (if raises db GetItem then zero_usage
      else \<lparr>input_tokens = counter ''input_tokens'' db (u, id_format cfg now),
            output_tokens = counter ''output_tokens'' db (u, id_format cfg now)\<rparr>)"
  by (simp add: TokenMeter_get_usage_def get_item_def zero_usage_def counter_def bucket_def
      Let_def)

lemma get_usage_read_fails:
  "raises db (read_of cfg) \<Longrightarrow> TokenMeter_get_usage cfg db u now = zero_usage"
  by (cases "aggregate cfg") (simp_all add: get_usage_aggregate get_usage_direct read_of_def)

lemma get_active_reservations_loop_eq:
  "get_active_reservations_loop items acc =
     acc @ map (\<lambda>item. \<lparr>r_reservation_id = snd (fst item),
                        r_output_tokens = num_attr ''output_tokens'' (snd item),
                        r_timestamp = num_attr ''timestamp'' (snd item)\<rparr>) items"
  by (induction items arbitrary: acc) simp_all

lemma get_total_reserved_tokens_eq:
  "get_total_reserved_tokens mgr db u now =
     (if raises db Query then 0
      else sum_list (map (\<lambda>item. num_attr ''output_tokens'' (snd item))
                       (todays_reservations db u now)))"
  by (simp add: get_total_reserved_tokens_def get_active_reservations_def Let_def
      query_begins_with_def get_active_reservations_loop_eq todays_reservations_def
      reservation_prefix_def comp_def)


section \<open>Properties of the reservation check\<close>

lemma manager_create_reservation_eq:
  "TokenReservationManager_create_reservation mgr env db u now uuid =
     (if raises db PutItem then (None, db)
      else (Some (reservation_id_of now uuid),
            db\<lparr>table := AList.update (u, reservation_id_of now uuid)
                           (reservation_item mgr env now) (table db)\<rparr>))"
  by (simp add: TokenReservationManager_create_reservation_def put_item_def Let_def
      reservation_id_of_def reservation_item_def reservation_amount_def)

lemma with_reservation_eq:
  "is_limit_exceeded_with_reservation L env db u now =
     (case TokenLimiter_is_limit_exceeded L db u now of
        (is_exceeded, token_type, period', usage_data) \<Rightarrow>
          if is_exceeded then (True, token_type, period', usage_data)
          else if daily_output_tokens usage_data
                    + get_total_reserved_tokens (reservation_manager L) db u now
                    + reservation_amount env > env_int env ''DAILY_OUTPUT_LIMIT'' 20000
          then (True, Some ''output'', Some ''daily'',
                usage_data\<lparr>total_reserved_tokens :=
                             Some (get_total_reserved_tokens (reservation_manager L) db u now),
                           new_reservation_amount := Some (reservation_amount env),
                           total_with_reservation :=
                             Some (daily_output_tokens usage_data
                                   + get_total_reserved_tokens (reservation_manager L) db u now
                                   + reservation_amount env)\<rparr>)
          else (False, None, None,
                usage_data\<lparr>total_reserved_tokens :=
                             Some (get_total_reserved_tokens (reservation_manager L) db u now),
                           new_reservation_amount := Some (reservation_amount env),
                           total_with_reservation :=
                             Some (daily_output_tokens usage_data
                                   + get_total_reserved_tokens (reservation_manager L) db u now
                                   + reservation_amount env)\<rparr>))"
  by (simp add: is_limit_exceeded_with_reservation_def Let_def reservation_amount_def
      split: prod.splits)


section \<open>Properties of the limiter's loop\<close>

lemma meter_result_usage:
  "snd (snd (TokenMeter_is_limit_exceeded m db u now)) = TokenMeter_get_usage m db u now"
  by (simp add: TokenMeter_is_limit_exceeded_def Let_def)

lemma is_limit_exceeded_loop_eq:
  "is_limit_exceeded_loop ms db u now t =
     (case find (exceeded_at db u now) ms of
        Some m \<Rightarrow> (True, fst (snd (TokenMeter_is_limit_exceeded m db u now)),
                   Some (description m), collect_all db u now (observed ms db u now) t)
      | None \<Rightarrow> (False, None, None, collect_all db u now (observed ms db u now) t))"
proof (induction ms arbitrary: t)
  case Nil
  then show ?case by (simp add: observed_def collect_all_def)
next
  case (Cons m ms)
  obtain ex tt us where r: "TokenMeter_is_limit_exceeded m db u now = (ex, tt, us)"
    by (cases "TokenMeter_is_limit_exceeded m db u now") auto
  then have us: "us = TokenMeter_get_usage m db u now"
    using meter_result_usage[of m db u now] by simp
  show ?case
  proof (cases ex)
    case True
    with r us show ?thesis
      by (simp add: observed_def collect_all_def exceeded_at_def)
  next
    case False
    have "collect_all db u now (observed (m # ms) db u now) t =
          collect_all db u now (observed ms db u now) (collect_usage m us t)"
      using False r us by (simp add: observed_def collect_all_def exceeded_at_def)
    with False r Cons.IH[of "collect_usage m us t"] show ?thesis
      by (simp add: exceeded_at_def split: option.splits)
  qed
qed

lemma find_observed:
  "find (exceeded_at db u now) (observed ms db u now) = find (exceeded_at db u now) ms"
  by (induction ms) (simp_all add: observed_def)

lemma observed_idem: "observed (observed ms db u now) db u now = observed ms db u now"
  by (induction ms) (simp_all add: observed_def)

lemma find_Some_iff_ex: "(find P xs \<noteq> None) = (\<exists>x \<in> set xs. P x)"
  by (induction xs) auto

lemma collect_usage_fields:
  "input_tokens (collect_usage m us t) = max (input_tokens t) (input_tokens us)"
  "output_tokens (collect_usage m us t) = max (output_tokens t) (output_tokens us)"
  "daily_input_tokens (collect_usage m us t) =
     (if name m = ''10min'' then input_tokens us else daily_input_tokens t)"
  "daily_output_tokens (collect_usage m us t) =
     (if name m = ''10min'' then output_tokens us else daily_output_tokens t)"
  "monthly_input_tokens (collect_usage m us t) =
     (if name m = ''monthly'' then input_tokens us else monthly_input_tokens t)"
  "monthly_output_tokens (collect_usage m us t) =
     (if name m = ''monthly'' then output_tokens us else monthly_output_tokens t)"
  by (simp_all add: collect_usage_def Let_def)

lemma collect_all_snoc:
  "collect_all db u now (ms @ [m]) t =
     collect_usage m (TokenMeter_get_usage m db u now) (collect_all db u now ms t)"
  by (simp add: collect_all_def)

lemma collect_all_max:
  "input_tokens (collect_all db u now ms t) =
     Max (set (input_tokens t # map (\<lambda>m. input_tokens (TokenMeter_get_usage m db u now)) ms))"
  "output_tokens (collect_all db u now ms t) =
     Max (set (output_tokens t # map (\<lambda>m. output_tokens (TokenMeter_get_usage m db u now)) ms))"
proof -
  have i: "input_tokens (collect_all db u now ms t) =
        fold max (map (\<lambda>m. input_tokens (TokenMeter_get_usage m db u now)) ms) (input_tokens t)"
    by (induction ms arbitrary: t)
       (simp_all add: collect_all_def collect_usage_fields max.commute)
  have o: "output_tokens (collect_all db u now ms t) =
        fold max (map (\<lambda>m. output_tokens (TokenMeter_get_usage m db u now)) ms) (output_tokens t)"
    by (induction ms arbitrary: t)
       (simp_all add: collect_all_def collect_usage_fields max.commute)
  show "input_tokens (collect_all db u now ms t) =
     Max (set (input_tokens t # map (\<lambda>m. input_tokens (TokenMeter_get_usage m db u now)) ms))"
    unfolding i by (rule Max.set_eq_fold[symmetric])
  show "output_tokens (collect_all db u now ms t) =
     Max (set (output_tokens t # map (\<lambda>m. output_tokens (TokenMeter_get_usage m db u now)) ms))"
    unfolding o by (rule Max.set_eq_fold[symmetric])
qed

lemma collect_all_labelled:
  "daily_input_tokens (collect_all db u now ms t) =
     (case filter (\<lambda>m. name m = ''10min'') ms of
        [] \<Rightarrow> daily_input_tokens t
      | x # xs \<Rightarrow> input_tokens (TokenMeter_get_usage (last (x # xs)) db u now))"
  "daily_output_tokens (collect_all db u now ms t) =
     (case filter (\<lambda>m. name m = ''10min'') ms of
        [] \<Rightarrow> daily_output_tokens t
      | x # xs \<Rightarrow> output_tokens (TokenMeter_get_usage (last (x # xs)) db u now))"
  "monthly_input_tokens (collect_all db u now ms t) =
     (case filter (\<lambda>m. name m = ''monthly'') ms of
        [] \<Rightarrow> monthly_input_tokens t
      | x # xs \<Rightarrow> input_tokens (TokenMeter_get_usage (last (x # xs)) db u now))"
  "monthly_output_tokens (collect_all db u now ms t) =
     (case filter (\<lambda>m. name m = ''monthly'') ms of
        [] \<Rightarrow> monthly_output_tokens t
      | x # xs \<Rightarrow> output_tokens (TokenMeter_get_usage (last (x # xs)) db u now))"
  by (induction ms rule: rev_induct;
      simp add: collect_all_snoc collect_usage_fields split: list.splits;
      simp add: collect_all_def)+

lemma max_zero_nonneg:
  fixes xs :: "int list"
  assumes "xs \<noteq> []" "\<forall>x \<in> set xs. 0 \<le> x"
  shows "Max (set (0 # xs)) = Max (set xs)"
proof -
  have "Max (insert 0 (set xs)) = max 0 (Max (set xs))"
    using assms by (intro Max_insert) auto
  moreover have "0 \<le> Max (set xs)"
    using assms by (simp add: Max_ge_iff) (meson last_in_set)
  ultimately show ?thesis by simp
qed


section \<open>Properties of a reservation record\<close>

lemma update_fresh: "map_of al k = None \<Longrightarrow> AList.update k v al = al @ [(k, v)]"
  by (induction al) (auto split: if_splits)

lemma meter_kind_input:
  "(fst (snd (TokenMeter_is_limit_exceeded cfg db u now)) = Some ''input'')
     = (input_limit cfg \<le> input_tokens (TokenMeter_get_usage cfg db u now))"
  by (simp add: TokenMeter_is_limit_exceeded_def Let_def)

lemma reservation_item_input: "num_attr ''input_tokens'' (reservation_item mgr env now) = 0"
  by (simp add: reservation_item_def num_attr_def)

lemma get_usage_input_after_put:
  assumes "map_of (table db) k = None" "num_attr ''input_tokens'' item = 0"
  shows "input_tokens (TokenMeter_get_usage cfg (db\<lparr>table := AList.update k item (table db)\<rparr>)
                         u now)
         = input_tokens (TokenMeter_get_usage cfg db u now)"
proof (cases "aggregate cfg")
  case True
  have "window_records cfg (db\<lparr>table := table db @ [(k, item)]\<rparr>) u now =
        window_records cfg db u now \<or>
        window_records cfg (db\<lparr>table := table db @ [(k, item)]\<rparr>) u now =
        window_records cfg db u now @ [(k, item)]"
    by (simp add: window_records_def)
  then show ?thesis
    using True assms
    by (auto simp: get_usage_aggregate update_fresh sum_period_usage_eq zero_usage_def)
next
  case False
  have "counter ''input_tokens'' (db\<lparr>table := AList.update k item (table db)\<rparr>) k' =
        counter ''input_tokens'' db k'" for k'
    using assms by (simp add: counter_def bucket_def update_conv' num_attr_def)
  with False show ?thesis
    by (simp add: get_usage_direct zero_usage_def)
qed


section \<open>Properties of the admission\<close>

lemma observed_all: "find (exceeded_at db u now) ms = None \<Longrightarrow> observed ms db u now = ms"
  by (induction ms) (auto simp: observed_def split: if_splits)

lemma handler_after_passing_checks:
  assumes "\<not> fst (TokenLimiter_is_limit_exceeded L db u now)"
    and "\<not> fst (is_limit_exceeded_with_reservation L env db u now)"
    and "\<not> raises db PutItem"
  shows "lambda_handler_admission L env db u now uuid =
           (Processing (reservation_id_of now uuid),
            db\<lparr>table := AList.update (u, reservation_id_of now uuid)
                           (reservation_item (reservation_manager L) env now) (table db)\<rparr>)"
  using assms
  by (cases "TokenLimiter_is_limit_exceeded L db u now";
      cases "is_limit_exceeded_with_reservation L env db u now")
     (simp add: lambda_handler_admission_def TokenLimiter_create_reservation_def
        manager_create_reservation_eq)

lemma amount_positive_iff:
  "(0 < reservation_amount env) = (2 \<le> env_int env ''DAILY_OUTPUT_LIMIT'' 20000)"
  by (simp add: reservation_amount_def int_times_half_def) presburger


section \<open>The claims\<close>

text \<open>
  C4 (as amended). A successful \<^verbatim>\<open>update_usage\<close> changes one bucket only. There it
  sets \<^verbatim>\<open>timestamp\<close> (the creation time) only if the attribute is absent and keeps it
  otherwise, it adds the two token deltas to the counters, and it sets \<^verbatim>\<open>ttl\<close> to the
  expiry computed from the time of this call, whether or not the attribute was there:
  every record moves the bucket's expiry. No other attribute and no other item changes.
\<close>

theorem update_usage_keeps_timestamp_sets_ttl:
  assumes "TokenMeter_update_usage cfg db u i o' now = (True, db')"
  shows "bucket db' (u, id_format cfg (round_time cfg now)) ''timestamp'' =
           Some (case bucket db (u, id_format cfg (round_time cfg now)) ''timestamp'' of
                   Some v \<Rightarrow> v | None \<Rightarrow> N (timestamp now))
       \<and> bucket db' (u, id_format cfg (round_time cfg now)) ''ttl'' =
           Some (N (ttl_value_of cfg now))
       \<and> num_attr ''input_tokens'' (bucket db' (u, id_format cfg (round_time cfg now))) =
           num_attr ''input_tokens'' (bucket db (u, id_format cfg (round_time cfg now))) + i
       \<and> num_attr ''output_tokens'' (bucket db' (u, id_format cfg (round_time cfg now))) =
           num_attr ''output_tokens'' (bucket db (u, id_format cfg (round_time cfg now))) + o'
       \<and> (\<forall>a. a \<notin> {''input_tokens'', ''output_tokens'', ''timestamp'', ''ttl''} \<longrightarrow>
             bucket db' (u, id_format cfg (round_time cfg now)) a =
             bucket db (u, id_format cfg (round_time cfg now)) a)
       \<and> (\<forall>k. k \<noteq> (u, id_format cfg (round_time cfg now)) \<longrightarrow>
             map_of (table db') k = map_of (table db) k)"
  using update_usage_bucket[OF assms]
  by (simp add: bucket_def usage_item_def num_attr_def)

theorem update_usage_keeps_timestamp_sets_ttl_witness:
  "bucket recorded_once (''u'', ''10min:2025-01-08:12:00'') ''timestamp'' = Some (N 1736337660)
   \<and> bucket recorded_once (''u'', ''10min:2025-01-08:12:00'') ''ttl'' = Some (N 1736424060)
   \<and> num_attr ''input_tokens'' (bucket recorded_once (''u'', ''10min:2025-01-08:12:00'')) = 10
   \<and> num_attr ''output_tokens'' (bucket recorded_once (''u'', ''10min:2025-01-08:12:00'')) = 20
   \<and> map_of (table recorded_once) (''v'', ''10min:2025-01-08:12:00'') = None"
proof -
  have k: "id_format default_ten_minute (round_time default_ten_minute (jan8 12 1 0)) =
             ''10min:2025-01-08:12:00''"
    by code_simp
  have t: "timestamp (jan8 12 1 0) = 1736337660"
    and l: "ttl_value_of default_ten_minute (jan8 12 1 0) = 1736424060"
    by code_simp+
  have e: "bucket empty_db (''u'', ''10min:2025-01-08:12:00'') = Map.empty"
    and n: "map_of (table empty_db) (''v'', ''10min:2025-01-08:12:00'') = None"
    by (simp_all add: bucket_def empty_db_def)
  from update_usage_keeps_timestamp_sets_ttl[OF recorded_once_ok] show ?thesis
    unfolding k t l e by (simp add: n num_attr_def)
qed

text \<open>
  C4 as stated fails: the second record into a bucket changes its \<^verbatim>\<open>ttl\<close> (from the
  first call's time plus a day to the second call's time plus a day), while the
  \<^verbatim>\<open>timestamp\<close> stays.
\<close>

theorem update_usage_ttl_counterexample:
  "fst (TokenMeter_update_usage default_ten_minute empty_db ''u'' 10 20 (jan8 12 1 0))
   \<and> fst (TokenMeter_update_usage default_ten_minute recorded_once ''u'' 1 2 (jan8 12 2 0))
   \<and> bucket recorded_once (''u'', ''10min:2025-01-08:12:00'') ''ttl'' = Some (N 1736424060)
   \<and> bucket recorded_twice (''u'', ''10min:2025-01-08:12:00'') ''ttl'' = Some (N 1736424120)
   \<and> bucket recorded_once (''u'', ''10min:2025-01-08:12:00'') ''timestamp'' =
       Some (N 1736337660)
   \<and> bucket recorded_twice (''u'', ''10min:2025-01-08:12:00'') ''timestamp'' =
       Some (N 1736337660)"
  by code_simp

text \<open>
  C9 (as amended). Records with token counts (deltas that are not negative) never decrease a counter
  of any bucket: whatever was recorded before, and whichever meters, users and times the
  further records have, a bucket's \<^verbatim>\<open>input_tokens\<close> and \<^verbatim>\<open>output_tokens\<close> after them
  are at least what they were before them. A record that fails leaves the table as it is.
\<close>

theorem record_calls_counters_monotone:
  assumes "\<forall>(cfg, u, i, o', now) \<in> set later. 0 \<le> i \<and> 0 \<le> o'"
  shows "counter ''input_tokens'' (record_calls earlier db) k
           \<le> counter ''input_tokens'' (record_calls (earlier @ later) db) k
       \<and> counter ''output_tokens'' (record_calls earlier db) k
           \<le> counter ''output_tokens'' (record_calls (earlier @ later) db) k"
  using record_calls_mono[OF assms] by (simp add: record_calls_append)

theorem record_calls_counters_monotone_witness:
  "counter ''input_tokens''
     (record_calls [(default_ten_minute, ''u'', 10, 20, jan8 12 1 0)] empty_db)
     (''u'', ''10min:2025-01-08:12:00'')
   \<le> counter ''input_tokens''
     (record_calls ([(default_ten_minute, ''u'', 10, 20, jan8 12 1 0)] @
                    [(default_ten_minute, ''u'', 1, 2, jan8 12 2 0)]) empty_db)
     (''u'', ''10min:2025-01-08:12:00'')
   \<and> counter ''output_tokens''
     (record_calls [(default_ten_minute, ''u'', 10, 20, jan8 12 1 0)] empty_db)
     (''u'', ''10min:2025-01-08:12:00'')
   \<le> counter ''output_tokens''
     (record_calls ([(default_ten_minute, ''u'', 10, 20, jan8 12 1 0)] @
                    [(default_ten_minute, ''u'', 1, 2, jan8 12 2 0)]) empty_db)
     (''u'', ''10min:2025-01-08:12:00'')"
  using record_calls_counters_monotone
    [of "[(default_ten_minute, ''u'', 1, 2, jan8 12 2 0)]"
        "[(default_ten_minute, ''u'', 10, 20, jan8 12 1 0)]" empty_db
        "(''u'', ''10min:2025-01-08:12:00'')"]
  by simp

text \<open>
  C9 as stated fails: \<^verbatim>\<open>update_usage\<close> checks no sign, and a record with the deltas
  -3 and -4 takes the counters of the bucket from 10 and 20 to 7 and 16.
\<close>

theorem record_negative_delta_counterexample:
  "fst (TokenMeter_update_usage default_ten_minute recorded_once ''u'' (- 3) (- 4)
          (jan8 12 2 0))
   \<and> counter ''input_tokens'' recorded_once (''u'', ''10min:2025-01-08:12:00'') = 10
   \<and> counter ''output_tokens'' recorded_once (''u'', ''10min:2025-01-08:12:00'') = 20
   \<and> counter ''input_tokens'' recorded_negative (''u'', ''10min:2025-01-08:12:00'') = 7
   \<and> counter ''output_tokens'' recorded_negative (''u'', ''10min:2025-01-08:12:00'') = 16"
  by code_simp

text \<open>
  C7 (as amended). The usage read fails open and raises nothing: when the store read of
  the policy raises (the query of an aggregate policy, the get of a direct one), the
  usage is zero input and zero output tokens. It is zero also when a direct policy finds
  no record under the current bucket's key, and when an aggregate policy finds no record
  of the principal in its window. Under a failing read and positive limits, the meter's
  check reports that no limit is exceeded.
\<close>

theorem get_usage_fails_open:
  "(raises db (read_of cfg) \<longrightarrow> TokenMeter_get_usage cfg db u now = zero_usage)
   \<and> (\<not> aggregate cfg \<and> map_of (table db) (u, id_format cfg now) = None \<longrightarrow>
        TokenMeter_get_usage cfg db u now = zero_usage)
   \<and> (aggregate cfg \<and> window_records cfg db u now = [] \<longrightarrow>
        TokenMeter_get_usage cfg db u now = zero_usage)
   \<and> (raises db (read_of cfg) \<and> 0 < input_limit cfg \<and> 0 < output_limit cfg \<longrightarrow>
        TokenMeter_is_limit_exceeded cfg db u now = (False, None, zero_usage))"
  by (auto simp: get_usage_read_fails get_usage_direct get_usage_aggregate
      TokenMeter_is_limit_exceeded_def sum_period_usage_eq counter_def bucket_def
      num_attr_def zero_usage_def)

theorem get_usage_fails_open_witness:
  "TokenMeter_get_usage default_ten_minute (recorded_once\<lparr>raises := always_raises\<rparr>) ''u''
     (jan8 12 5 30) = zero_usage
   \<and> TokenMeter_is_limit_exceeded default_ten_minute (recorded_once\<lparr>raises := always_raises\<rparr>)
       ''u'' (jan8 12 5 30) = (False, None, zero_usage)
   \<and> TokenMeter_get_usage default_monthly recorded_once ''u'' (jan8 12 5 30) = zero_usage
   \<and> TokenMeter_get_usage default_ten_minute recorded_once ''v'' (jan8 12 5 30) = zero_usage"
proof -
  have r: "raises (recorded_once\<lparr>raises := always_raises\<rparr>) (read_of default_ten_minute)"
    by (simp add: always_raises_def)
  have l: "0 < input_limit default_ten_minute" "0 < output_limit default_ten_minute"
    by code_simp+
  have m: "\<not> aggregate default_monthly" by code_simp
  have "(''u'', id_format default_monthly (jan8 12 5 30)) \<notin> set (map fst (table recorded_once))"
    by code_simp
  then have n: "map_of (table recorded_once) (''u'', id_format default_monthly (jan8 12 5 30))
                  = None"
    by (simp add: map_of_eq_None_iff)
  have a: "aggregate default_ten_minute" by code_simp
  have "length (window_records default_ten_minute recorded_once ''v'' (jan8 12 5 30)) = 0"
    by code_simp
  then have w: "window_records default_ten_minute recorded_once ''v'' (jan8 12 5 30) = []"
    by simp
  from get_usage_fails_open
         [of "recorded_once\<lparr>raises := always_raises\<rparr>" default_ten_minute "''u''"
             "jan8 12 5 30"]
       get_usage_fails_open [of recorded_once default_monthly "''u''" "jan8 12 5 30"]
       get_usage_fails_open [of recorded_once default_ten_minute "''v''" "jan8 12 5 30"]
       r l m n a w
  show ?thesis by blast
qed

text \<open>
  C7 as stated fails for the aggregate policy: after a record at 11:55 (bucket 11:50),
  at 12:05:30 there is no record for the current bucket (neither under the key of the
  rounded time, 12:00, nor under the key of the time itself), and the usage is 5 input
  and 7 output tokens.
\<close>

theorem get_usage_current_bucket_counterexample:
  "(''u'', id_format default_ten_minute (round_time default_ten_minute (jan8 12 5 30)))
     \<notin> set (map fst (table recorded_before_noon))
   \<and> (''u'', id_format default_ten_minute (jan8 12 5 30))
     \<notin> set (map fst (table recorded_before_noon))
   \<and> input_tokens (TokenMeter_get_usage default_ten_minute recorded_before_noon ''u''
        (jan8 12 5 30)) = 5
   \<and> output_tokens (TokenMeter_get_usage default_ten_minute recorded_before_noon ''u''
        (jan8 12 5 30)) = 7"
  by code_simp

text \<open>
  C3. The claim: the total reservation of a principal is the sum of the reserved output
  tokens over the principal's reservation records of today whose time to live has not
  passed (\<open>total_reserved_spec\<close>), and 0 when the query raises. The code sums the
  \<^verbatim>\<open>output_tokens\<close> of every record under today's reservation prefix and never reads
  \<^verbatim>\<open>ttl\<close> (\<open>get_total_reserved_tokens_eq\<close>). So a reservation made at 09:00 with a time
  to live of ten minutes is, as long as the store has not removed it, still counted at
  12:00: the code returns 10000 where the claim says 0.
\<close>

theorem total_reserved_counts_expired_record:
  "map fst (table reserved_at_nine) = [(''u'', ''reservation:daily:2025-01-08:uuid1'')]
   \<and> bucket reserved_at_nine (''u'', ''reservation:daily:2025-01-08:uuid1'') ''ttl''
       = Some (N 1736327400)
   \<and> timestamp (jan8 12 0 0) = 1736337600
   \<and> get_total_reserved_tokens default_manager reserved_at_nine ''u'' (jan8 12 0 0) = 10000
   \<and> total_reserved_spec reserved_at_nine ''u'' (jan8 12 0 0) = 0"
  by code_simp

text \<open>
  C1 (as amended). When the check of the regular limits passes, the check with a
  reservation refuses exactly when the daily output usage plus the total reservation plus
  the size of a new reservation is greater than the daily output limit of the environment
  (the setting \<^verbatim>\<open>DAILY_OUTPUT_LIMIT\<close>, 20000 when unset; not the output limit of the
  limiter's daily policy). It then reports the token type \<^verbatim>\<open>output\<close> and the period
  \<^verbatim>\<open>daily\<close>, no reservation is made, and the handler publishes an error event whose
  details carry the token type \<^verbatim>\<open>output\<close> and the period \<^verbatim>\<open>daily\<close>. At the limit
  itself and below it the check passes, the reservation is attempted, and when its write
  does not raise the handler goes on to process the request with the new reservation.
\<close>

theorem reservation_arithmetic_rejects_output_daily:
  assumes "\<not> fst (TokenLimiter_is_limit_exceeded L db u now)"
  shows "(daily_output_tokens (snd (snd (snd (TokenLimiter_is_limit_exceeded L db u now))))
            + get_total_reserved_tokens (reservation_manager L) db u now
            + reservation_amount env > env_int env ''DAILY_OUTPUT_LIMIT'' 20000 \<longrightarrow>
          fst (is_limit_exceeded_with_reservation L env db u now)
          \<and> fst (snd (is_limit_exceeded_with_reservation L env db u now)) = Some ''output''
          \<and> fst (snd (snd (is_limit_exceeded_with_reservation L env db u now))) = Some ''daily''
          \<and> TokenLimiter_create_reservation L env db u now uuid = (None, db)
          \<and> lambda_handler_admission L env db u now uuid =
              (Error_event ''reservation_failed''
                 \<lparr>tokenType = Some ''output'', period = Some ''daily'',
                  tokenUsage = snd (snd (snd (TokenLimiter_is_limit_exceeded L db u now)))\<rparr>,
               db))
       \<and> (daily_output_tokens (snd (snd (snd (TokenLimiter_is_limit_exceeded L db u now))))
            + get_total_reserved_tokens (reservation_manager L) db u now
            + reservation_amount env \<le> env_int env ''DAILY_OUTPUT_LIMIT'' 20000 \<longrightarrow>
          \<not> fst (is_limit_exceeded_with_reservation L env db u now)
          \<and> TokenLimiter_create_reservation L env db u now uuid =
              TokenReservationManager_create_reservation (reservation_manager L) env db u now
                uuid
          \<and> (\<not> raises db PutItem \<longrightarrow>
               lambda_handler_admission L env db u now uuid =
                 (Processing (reservation_id_of now uuid),
                  db\<lparr>table := AList.update (u, reservation_id_of now uuid)
                                 (reservation_item (reservation_manager L) env now)
                                 (table db)\<rparr>)))"
proof -
  have low: "\<not> fst (is_limit_exceeded_with_reservation L env db u now)"
    if "daily_output_tokens (snd (snd (snd (TokenLimiter_is_limit_exceeded L db u now))))
            + get_total_reserved_tokens (reservation_manager L) db u now
            + reservation_amount env \<le> env_int env ''DAILY_OUTPUT_LIMIT'' 20000"
    using that assms
    by (cases "TokenLimiter_is_limit_exceeded L db u now") (simp add: with_reservation_eq)
  have rest: "(daily_output_tokens (snd (snd (snd (TokenLimiter_is_limit_exceeded L db u now))))
            + get_total_reserved_tokens (reservation_manager L) db u now
            + reservation_amount env > env_int env ''DAILY_OUTPUT_LIMIT'' 20000 \<longrightarrow>
          fst (is_limit_exceeded_with_reservation L env db u now)
          \<and> fst (snd (is_limit_exceeded_with_reservation L env db u now)) = Some ''output''
          \<and> fst (snd (snd (is_limit_exceeded_with_reservation L env db u now))) = Some ''daily''
          \<and> TokenLimiter_create_reservation L env db u now uuid = (None, db)
          \<and> lambda_handler_admission L env db u now uuid =
              (Error_event ''reservation_failed''
                 \<lparr>tokenType = Some ''output'', period = Some ''daily'',
                  tokenUsage = snd (snd (snd (TokenLimiter_is_limit_exceeded L db u now)))\<rparr>,
               db))
       \<and> (daily_output_tokens (snd (snd (snd (TokenLimiter_is_limit_exceeded L db u now))))
            + get_total_reserved_tokens (reservation_manager L) db u now
            + reservation_amount env \<le> env_int env ''DAILY_OUTPUT_LIMIT'' 20000 \<longrightarrow>
          TokenLimiter_create_reservation L env db u now uuid =
              TokenReservationManager_create_reservation (reservation_manager L) env db u now
                uuid)"
    using assms
    by (cases "TokenLimiter_is_limit_exceeded L db u now")
       (simp add: with_reservation_eq TokenLimiter_create_reservation_def
          lambda_handler_admission_def)
  from low rest handler_after_passing_checks[OF assms] show ?thesis by blast
qed

text \<open>With the default limits (20000, reservations of 10000): two reservations in the
  table refuse a third (0 + 20000 + 10000); one reservation admits a second
  (0 + 10000 + 10000 is the limit), and the handler goes on with it.\<close>

theorem reservation_arithmetic_rejects_output_daily_witness:
  "fst (is_limit_exceeded_with_reservation default_limiter Map.empty two_reservations ''u''
          (jan8 9 2 0))
   \<and> fst (snd (is_limit_exceeded_with_reservation default_limiter Map.empty two_reservations
          ''u'' (jan8 9 2 0))) = Some ''output''
   \<and> fst (snd (snd (is_limit_exceeded_with_reservation default_limiter Map.empty
          two_reservations ''u'' (jan8 9 2 0)))) = Some ''daily''
   \<and> TokenLimiter_create_reservation default_limiter Map.empty two_reservations ''u''
          (jan8 9 2 0) ''uuid3'' = (None, two_reservations)
   \<and> fst (lambda_handler_admission default_limiter Map.empty two_reservations ''u''
          (jan8 9 2 0) ''uuid3'')
       = Error_event ''reservation_failed''
           \<lparr>tokenType = Some ''output'', period = Some ''daily'',
            tokenUsage = snd (snd (snd (TokenLimiter_is_limit_exceeded default_limiter
                                          two_reservations ''u'' (jan8 9 2 0))))\<rparr>
   \<and> \<not> fst (is_limit_exceeded_with_reservation default_limiter Map.empty reserved_at_nine ''u''
          (jan8 9 1 0))
   \<and> fst (lambda_handler_admission default_limiter Map.empty reserved_at_nine ''u''
          (jan8 9 1 0) ''uuid2'') = Processing (reservation_id_of (jan8 9 1 0) ''uuid2'')"
proof -
  have b2: "\<not> fst (TokenLimiter_is_limit_exceeded default_limiter two_reservations ''u''
                    (jan8 9 2 0))"
    and b1: "\<not> fst (TokenLimiter_is_limit_exceeded default_limiter reserved_at_nine ''u''
                    (jan8 9 1 0))"
    by code_simp+
  have over: "daily_output_tokens (snd (snd (snd (TokenLimiter_is_limit_exceeded
                  default_limiter two_reservations ''u'' (jan8 9 2 0)))))
            + get_total_reserved_tokens (reservation_manager default_limiter) two_reservations
                ''u'' (jan8 9 2 0)
            + reservation_amount Map.empty > env_int Map.empty ''DAILY_OUTPUT_LIMIT'' 20000"
    by code_simp
  have exact: "daily_output_tokens (snd (snd (snd (TokenLimiter_is_limit_exceeded
                  default_limiter reserved_at_nine ''u'' (jan8 9 1 0)))))
            + get_total_reserved_tokens (reservation_manager default_limiter) reserved_at_nine
                ''u'' (jan8 9 1 0)
            + reservation_amount Map.empty = env_int Map.empty ''DAILY_OUTPUT_LIMIT'' 20000"
    by code_simp
  have p: "\<not> raises reserved_at_nine PutItem" by code_simp
  from reservation_arithmetic_rejects_output_daily [OF b2, of Map.empty "''uuid3''"]
       reservation_arithmetic_rejects_output_daily [OF b1, of Map.empty "''uuid2''"]
       over exact p
  show ?thesis by simp
qed

text \<open>
  C1 as stated, with the output limit of the daily policy as the daily output limit,
  fails: for the limiter whose ten-minute policy has the output limit 2000, a user with
  1500 output tokens and no reservation passes the regular check, 1500 + 0 + 10000 is
  greater than 2000, and the handler admits the request and makes the reservation.
\<close>

theorem admitted_over_policy_limit_counterexample:
  "map name (meters small_limiter) = [''10min'', ''monthly'']
   \<and> map output_limit (meters small_limiter) = [2000, 200000]
   \<and> \<not> fst (TokenLimiter_is_limit_exceeded small_limiter small_recorded ''u'' (jan8 12 2 0))
   \<and> daily_output_tokens (snd (snd (snd (TokenLimiter_is_limit_exceeded small_limiter
        small_recorded ''u'' (jan8 12 2 0))))) = 1500
   \<and> get_total_reserved_tokens (reservation_manager small_limiter) small_recorded ''u''
        (jan8 12 2 0) = 0
   \<and> reservation_amount Map.empty = 10000
   \<and> fst (lambda_handler_admission small_limiter Map.empty small_recorded ''u'' (jan8 12 2 0)
            ''uuid1'') = Processing ''reservation:daily:2025-01-08:uuid1''"
  by code_simp

text \<open>
  C2 (as amended). The size of a reservation is \<^verbatim>\<open>int(limit * 0.5)\<close> for the value
  \<open>limit\<close> of the environment variable \<^verbatim>\<open>DAILY_OUTPUT_LIMIT\<close> (20000 when unset): the
  fraction is the constant 0.5, no other setting changes the size, and the meters of the
  limiter are not consulted. Every reservation record is written with this size as its
  \<^verbatim>\<open>output_tokens\<close>, and the check with a reservation uses the same size. It is half of
  the output limit of the ten-minute meter when that meter was made with the default
  limit under the same environment.
\<close>

theorem reservation_size_from_environment:
  "(\<not> raises db PutItem \<longrightarrow>
      fst (TokenReservationManager_create_reservation mgr env db u now uuid)
        = Some (reservation_id_of now uuid)
      \<and> bucket (snd (TokenReservationManager_create_reservation mgr env db u now uuid))
          (u, reservation_id_of now uuid) ''output_tokens''
        = Some (N (reservation_amount env)))
   \<and> (\<not> fst (TokenLimiter_is_limit_exceeded L db u now) \<longrightarrow>
        new_reservation_amount (snd (snd (snd (is_limit_exceeded_with_reservation L env db u now))))
          = Some (reservation_amount env))
   \<and> reservation_amount env = int_times_half (env_int env ''DAILY_OUTPUT_LIMIT'' 20000)
   \<and> reservation_amount env
        = int_times_half (output_limit (create_ten_minute_period env None None))
   \<and> (k \<noteq> ''DAILY_OUTPUT_LIMIT'' \<longrightarrow> reservation_amount (env(k \<mapsto> v)) = reservation_amount env)"
  by (auto simp: manager_create_reservation_eq with_reservation_eq bucket_def update_conv'
      reservation_item_def reservation_amount_def create_ten_minute_period_def
      limit_or_env_def env_int_def split: prod.splits)

theorem reservation_size_from_environment_witness:
  "fst (TokenReservationManager_create_reservation default_manager Map.empty empty_db ''u''
          (jan8 9 0 0) ''uuid1'') = Some (reservation_id_of (jan8 9 0 0) ''uuid1'')
   \<and> bucket reserved_at_nine (''u'', reservation_id_of (jan8 9 0 0) ''uuid1'') ''output_tokens''
       = Some (N 10000)
   \<and> new_reservation_amount
        (snd (snd (snd (is_limit_exceeded_with_reservation default_limiter Map.empty empty_db
                          ''u'' (jan8 9 0 0))))) = Some 10000
   \<and> reservation_amount (Map.empty(''DAILY_INPUT_LIMIT'' \<mapsto> 7)) = 10000"
proof -
  have p: "\<not> raises empty_db PutItem" by code_simp
  have e: "\<not> fst (TokenLimiter_is_limit_exceeded default_limiter empty_db ''u'' (jan8 9 0 0))"
    by code_simp
  have a: "reservation_amount Map.empty = 10000" by code_simp
  have k: "''DAILY_INPUT_LIMIT'' \<noteq> ''DAILY_OUTPUT_LIMIT''" by simp
  from reservation_size_from_environment
         [of empty_db default_manager Map.empty "''u''" "jan8 9 0 0" "''uuid1''"
             default_limiter "''DAILY_INPUT_LIMIT''" 7] p e k
  show ?thesis unfolding a by (simp add: reserved_at_nine_def)
qed

text \<open>
  C2 as stated fails: with a ten-minute meter whose output limit is 2000 (and no
  \<^verbatim>\<open>DAILY_OUTPUT_LIMIT\<close> in the environment), the limiter makes a reservation of
  10000 tokens, not of half of 2000.
\<close>

theorem reservation_size_ignores_meters_counterexample:
  "map output_limit (meters small_limiter) = [2000, 200000]
   \<and> fst (TokenLimiter_create_reservation small_limiter Map.empty empty_db ''u'' (jan8 9 0 0)
            ''uuid1'') = Some ''reservation:daily:2025-01-08:uuid1''
   \<and> bucket (snd (TokenLimiter_create_reservation small_limiter Map.empty empty_db ''u''
                    (jan8 9 0 0) ''uuid1''))
        (''u'', ''reservation:daily:2025-01-08:uuid1'') ''output_tokens'' = Some (N 10000)
   \<and> int_times_half 2000 = 1000"
  by code_simp

text \<open>
  C5. \<^verbatim>\<open>get_meter_limits\<close> maps a meter's name to one number, the meter's input limit;
  the output limit is not in the result. For the limiter of the handler the result is
  10000 for \<^verbatim>\<open>10min\<close> and 100000 for \<^verbatim>\<open>monthly\<close>, while the output limits of the two
  meters are 20000 and 200000.
\<close>

theorem get_meter_limits_input_only:
  "get_meter_limits default_limiter ''10min'' = Some 10000
   \<and> get_meter_limits default_limiter ''monthly'' = Some 100000
   \<and> map name (meters default_limiter) = [''10min'', ''monthly'']
   \<and> map input_limit (meters default_limiter) = [10000, 100000]
   \<and> map output_limit (meters default_limiter) = [20000, 200000]"
  by code_simp

text \<open>
  C8. When the write of the reservation record raises, \<^verbatim>\<open>create_reservation\<close> of the
  manager returns no reservation id and leaves the table as it is, so does
  \<^verbatim>\<open>create_reservation\<close> of the limiter, and the handler (whose first limit check
  passed) publishes the error event of type \<^verbatim>\<open>reservation_failed\<close> and does not go on
  to process the request.
\<close>

theorem failed_write_denies_admission:
  assumes "raises db PutItem"
  shows "TokenReservationManager_create_reservation (reservation_manager L) env db u now uuid
           = (None, db)
       \<and> TokenLimiter_create_reservation L env db u now uuid = (None, db)
       \<and> (\<not> fst (TokenLimiter_is_limit_exceeded L db u now) \<longrightarrow>
            lambda_handler_admission L env db u now uuid =
              (Error_event ''reservation_failed''
                 \<lparr>tokenType = Some ''output'', period = Some ''daily'',
                  tokenUsage = snd (snd (snd (TokenLimiter_is_limit_exceeded L db u now)))\<rparr>,
               db))"
proof -
  have 1: "TokenReservationManager_create_reservation (reservation_manager L) env db u now uuid
           = (None, db)"
    using assms by (simp add: manager_create_reservation_eq)
  have 2: "TokenLimiter_create_reservation L env db u now uuid = (None, db)"
    using 1 by (simp add: TokenLimiter_create_reservation_def split: prod.splits)
  show ?thesis using 1 2
    by (simp add: lambda_handler_admission_def split: prod.splits)
qed

theorem failed_write_denies_admission_witness:
  "TokenReservationManager_create_reservation (reservation_manager default_limiter) Map.empty
     put_failing_db ''u'' (jan8 9 0 0) ''uuid1'' = (None, put_failing_db)
   \<and> lambda_handler_admission default_limiter Map.empty put_failing_db ''u'' (jan8 9 0 0)
       ''uuid1'' =
         (Error_event ''reservation_failed''
            \<lparr>tokenType = Some ''output'', period = Some ''daily'',
             tokenUsage = snd (snd (snd (TokenLimiter_is_limit_exceeded default_limiter
                                           put_failing_db ''u'' (jan8 9 0 0))))\<rparr>,
          put_failing_db)"
proof -
  have p: "raises put_failing_db PutItem"
    by (simp add: put_failing_db_def only_put_raises_def)
  have e: "\<not> fst (TokenLimiter_is_limit_exceeded default_limiter put_failing_db ''u''
                   (jan8 9 0 0))"
    by code_simp
  from failed_write_denies_admission
         [OF p, of default_limiter Map.empty "''u''" "jan8 9 0 0" "''uuid1''"] e
  show ?thesis by simp
qed

text \<open>
  C6 (as amended). \<^verbatim>\<open>TokenLimiter.is_limit_exceeded\<close> reads the meters in the order of the list and
  stops at the first exceeded one: it reports exceeded exactly when some meter is
  exceeded, with the token type and the description of the first such meter, and the
  meters after that one play no part in the result. In the usage it returns,
  \<^verbatim>\<open>input_tokens\<close> and \<^verbatim>\<open>output_tokens\<close> are the maxima of 0 and the values of the
  meters read (the maxima of the values read, when a meter was read and the values are
  not negative); the \<^verbatim>\<open>daily_\<close> fields are the usage of the meter named \<^verbatim>\<open>10min\<close>
  and the \<^verbatim>\<open>monthly_\<close> fields the usage of the meter named \<^verbatim>\<open>monthly\<close> (the last
  such meter read; 0 when none was read). When no meter is exceeded, every meter is read.
\<close>

theorem limiter_short_circuits_and_takes_maximum:
  "fst (TokenLimiter_is_limit_exceeded L db u now)
     = (\<exists>m \<in> set (meters L). exceeded_at db u now m)
   \<and> (fst (snd (TokenLimiter_is_limit_exceeded L db u now)),
       fst (snd (snd (TokenLimiter_is_limit_exceeded L db u now))))
     = (case find (exceeded_at db u now) (meters L) of
          Some m \<Rightarrow> (fst (snd (TokenMeter_is_limit_exceeded m db u now)), Some (description m))
        | None \<Rightarrow> (None, None))
   \<and> TokenLimiter_is_limit_exceeded (L\<lparr>meters := observed (meters L) db u now\<rparr>) db u now
     = TokenLimiter_is_limit_exceeded L db u now
   \<and> (\<not> fst (TokenLimiter_is_limit_exceeded L db u now) \<longrightarrow>
        observed (meters L) db u now = meters L)
   \<and> input_tokens (snd (snd (snd (TokenLimiter_is_limit_exceeded L db u now))))
     = Max (set (0 # map (\<lambda>m. input_tokens (TokenMeter_get_usage m db u now))
                       (observed (meters L) db u now)))
   \<and> output_tokens (snd (snd (snd (TokenLimiter_is_limit_exceeded L db u now))))
     = Max (set (0 # map (\<lambda>m. output_tokens (TokenMeter_get_usage m db u now))
                       (observed (meters L) db u now)))
   \<and> (observed (meters L) db u now \<noteq> []
        \<and> (\<forall>m \<in> set (observed (meters L) db u now).
              0 \<le> input_tokens (TokenMeter_get_usage m db u now)
              \<and> 0 \<le> output_tokens (TokenMeter_get_usage m db u now)) \<longrightarrow>
       input_tokens (snd (snd (snd (TokenLimiter_is_limit_exceeded L db u now))))
         = Max (set (map (\<lambda>m. input_tokens (TokenMeter_get_usage m db u now))
                       (observed (meters L) db u now)))
       \<and> output_tokens (snd (snd (snd (TokenLimiter_is_limit_exceeded L db u now))))
         = Max (set (map (\<lambda>m. output_tokens (TokenMeter_get_usage m db u now))
                       (observed (meters L) db u now))))
   \<and> daily_input_tokens (snd (snd (snd (TokenLimiter_is_limit_exceeded L db u now))))
     = (case filter (\<lambda>m. name m = ''10min'') (observed (meters L) db u now) of
          [] \<Rightarrow> 0
        | x # xs \<Rightarrow> input_tokens (TokenMeter_get_usage (last (x # xs)) db u now))
   \<and> daily_output_tokens (snd (snd (snd (TokenLimiter_is_limit_exceeded L db u now))))
     = (case filter (\<lambda>m. name m = ''10min'') (observed (meters L) db u now) of
          [] \<Rightarrow> 0
        | x # xs \<Rightarrow> output_tokens (TokenMeter_get_usage (last (x # xs)) db u now))
   \<and> monthly_input_tokens (snd (snd (snd (TokenLimiter_is_limit_exceeded L db u now))))
     = (case filter (\<lambda>m. name m = ''monthly'') (observed (meters L) db u now) of
          [] \<Rightarrow> 0
        | x # xs \<Rightarrow> input_tokens (TokenMeter_get_usage (last (x # xs)) db u now))
   \<and> monthly_output_tokens (snd (snd (snd (TokenLimiter_is_limit_exceeded L db u now))))
     = (case filter (\<lambda>m. name m = ''monthly'') (observed (meters L) db u now) of
          [] \<Rightarrow> 0
        | x # xs \<Rightarrow> output_tokens (TokenMeter_get_usage (last (x # xs)) db u now))"
proof -
  let ?R = "TokenLimiter_is_limit_exceeded L db u now"
  let ?obs = "observed (meters L) db u now"
  let ?ud = "collect_all db u now ?obs initial_total_usage"
  have R: "?R = (case find (exceeded_at db u now) (meters L) of
        Some m \<Rightarrow> (True, fst (snd (TokenMeter_is_limit_exceeded m db u now)),
                   Some (description m), ?ud)
      | None \<Rightarrow> (False, None, None, ?ud))"
    by (simp add: TokenLimiter_is_limit_exceeded_def is_limit_exceeded_loop_eq)
  have ud: "snd (snd (snd ?R)) = ?ud"
    unfolding R by (simp split: option.splits)
  have 1: "fst ?R = (\<exists>m \<in> set (meters L). exceeded_at db u now m)"
    unfolding R using find_Some_iff_ex[of "exceeded_at db u now" "meters L"]
    by (auto split: option.splits)
  have 2: "(fst (snd ?R), fst (snd (snd ?R))) =
      (case find (exceeded_at db u now) (meters L) of
          Some m \<Rightarrow> (fst (snd (TokenMeter_is_limit_exceeded m db u now)), Some (description m))
        | None \<Rightarrow> (None, None))"
    unfolding R by (simp split: option.splits)
  have 3: "TokenLimiter_is_limit_exceeded (L\<lparr>meters := ?obs\<rparr>) db u now = ?R"
    unfolding R
    by (simp add: TokenLimiter_is_limit_exceeded_def is_limit_exceeded_loop_eq find_observed observed_idem
        cong: option.case_cong)
  have i0: "input_tokens initial_total_usage = 0" "output_tokens initial_total_usage = 0"
    "daily_input_tokens initial_total_usage = 0" "daily_output_tokens initial_total_usage = 0"
    "monthly_input_tokens initial_total_usage = 0" "monthly_output_tokens initial_total_usage = 0"
    by (simp_all add: initial_total_usage_def)
  have 4: "input_tokens (snd (snd (snd ?R)))
     = Max (set (0 # map (\<lambda>m. input_tokens (TokenMeter_get_usage m db u now)) ?obs))"
    "output_tokens (snd (snd (snd ?R)))
     = Max (set (0 # map (\<lambda>m. output_tokens (TokenMeter_get_usage m db u now)) ?obs))"
    unfolding ud by (simp_all only: collect_all_max i0)
  have 5: "input_tokens (snd (snd (snd ?R)))
         = Max (set (map (\<lambda>m. input_tokens (TokenMeter_get_usage m db u now)) ?obs))
       \<and> output_tokens (snd (snd (snd ?R)))
         = Max (set (map (\<lambda>m. output_tokens (TokenMeter_get_usage m db u now)) ?obs))"
    if "?obs \<noteq> []" "\<forall>m \<in> set ?obs. 0 \<le> input_tokens (TokenMeter_get_usage m db u now)
              \<and> 0 \<le> output_tokens (TokenMeter_get_usage m db u now)"
    unfolding 4 using that by (intro conjI max_zero_nonneg) auto
  have 6: "daily_input_tokens (snd (snd (snd ?R)))
     = (case filter (\<lambda>m. name m = ''10min'') ?obs of
          [] \<Rightarrow> 0
        | x # xs \<Rightarrow> input_tokens (TokenMeter_get_usage (last (x # xs)) db u now))"
    "daily_output_tokens (snd (snd (snd ?R)))
     = (case filter (\<lambda>m. name m = ''10min'') ?obs of
          [] \<Rightarrow> 0
        | x # xs \<Rightarrow> output_tokens (TokenMeter_get_usage (last (x # xs)) db u now))"
    "monthly_input_tokens (snd (snd (snd ?R)))
     = (case filter (\<lambda>m. name m = ''monthly'') ?obs of
          [] \<Rightarrow> 0
        | x # xs \<Rightarrow> input_tokens (TokenMeter_get_usage (last (x # xs)) db u now))"
    "monthly_output_tokens (snd (snd (snd ?R)))
     = (case filter (\<lambda>m. name m = ''monthly'') ?obs of
          [] \<Rightarrow> 0
        | x # xs \<Rightarrow> output_tokens (TokenMeter_get_usage (last (x # xs)) db u now))"
    unfolding ud by (simp_all only: collect_all_labelled i0)
  have 7: "observed (meters L) db u now = meters L"
    if "\<not> fst (TokenLimiter_is_limit_exceeded L db u now)"
  proof -
    from that have "find (exceeded_at db u now) (meters L) = None"
      unfolding R by (simp split: option.splits)
    then show ?thesis by (rule observed_all)
  qed
  from 1 2 3 4 5 6 7 show ?thesis by blast
qed

text \<open>After a record of 25000 output tokens the ten-minute meter is exceeded; the
  monthly meter is not read, and its fields stay 0.\<close>

theorem limiter_short_circuits_and_takes_maximum_witness:
  "fst (TokenLimiter_is_limit_exceeded default_limiter recorded_over_limit ''u'' (jan8 12 2 0))
   \<and> (fst (snd (TokenLimiter_is_limit_exceeded default_limiter recorded_over_limit ''u''
                  (jan8 12 2 0))),
       fst (snd (snd (TokenLimiter_is_limit_exceeded default_limiter recorded_over_limit ''u''
                  (jan8 12 2 0))))) = (Some ''output'', Some ''daily'')
   \<and> input_tokens (snd (snd (snd (TokenLimiter_is_limit_exceeded default_limiter
        recorded_over_limit ''u'' (jan8 12 2 0))))) = 10
   \<and> output_tokens (snd (snd (snd (TokenLimiter_is_limit_exceeded default_limiter
        recorded_over_limit ''u'' (jan8 12 2 0))))) = 25000
   \<and> daily_output_tokens (snd (snd (snd (TokenLimiter_is_limit_exceeded default_limiter
        recorded_over_limit ''u'' (jan8 12 2 0))))) = 25000
   \<and> monthly_output_tokens (snd (snd (snd (TokenLimiter_is_limit_exceeded default_limiter
        recorded_over_limit ''u'' (jan8 12 2 0))))) = 0"
proof -
  let ?obs = "observed (meters default_limiter) recorded_over_limit ''u'' (jan8 12 2 0)"
  have "map name ?obs = [''10min'']" by code_simp
  then have ne: "?obs \<noteq> []" by auto
  have "list_all (\<lambda>m. 0 \<le> input_tokens (TokenMeter_get_usage m recorded_over_limit ''u''
                                           (jan8 12 2 0))
                    \<and> 0 \<le> output_tokens (TokenMeter_get_usage m recorded_over_limit ''u''
                                           (jan8 12 2 0))) ?obs"
    by code_simp
  then have nn: "\<forall>m \<in> set ?obs.
       0 \<le> input_tokens (TokenMeter_get_usage m recorded_over_limit ''u'' (jan8 12 2 0))
     \<and> 0 \<le> output_tokens (TokenMeter_get_usage m recorded_over_limit ''u'' (jan8 12 2 0))"
    by (simp add: list_all_iff)
  have "list_ex (exceeded_at recorded_over_limit ''u'' (jan8 12 2 0)) (meters default_limiter)"
    by code_simp
  then have ex: "\<exists>m \<in> set (meters default_limiter).
                   exceeded_at recorded_over_limit ''u'' (jan8 12 2 0) m"
    by (simp add: list_ex_iff)
  have f: "(case find (exceeded_at recorded_over_limit ''u'' (jan8 12 2 0))
                   (meters default_limiter) of
          Some m \<Rightarrow> (fst (snd (TokenMeter_is_limit_exceeded m recorded_over_limit ''u''
                                 (jan8 12 2 0))), Some (description m))
        | None \<Rightarrow> (None, None)) = (Some ''output'', Some ''daily'')"
    by code_simp
  have mi: "Max (set (map (\<lambda>m. input_tokens (TokenMeter_get_usage m recorded_over_limit ''u''
                                  (jan8 12 2 0))) ?obs)) = 10"
    and mo: "Max (set (map (\<lambda>m. output_tokens (TokenMeter_get_usage m recorded_over_limit ''u''
                                  (jan8 12 2 0))) ?obs)) = 25000"
    by code_simp+
  have d: "(case filter (\<lambda>m. name m = ''10min'') ?obs of
          [] \<Rightarrow> 0
        | x # xs \<Rightarrow> output_tokens (TokenMeter_get_usage (last (x # xs)) recorded_over_limit
                                     ''u'' (jan8 12 2 0))) = 25000"
    and m: "(case filter (\<lambda>m. name m = ''monthly'') ?obs of
          [] \<Rightarrow> 0
        | x # xs \<Rightarrow> output_tokens (TokenMeter_get_usage (last (x # xs)) recorded_over_limit
                                     ''u'' (jan8 12 2 0))) = 0"
    by code_simp+
  note T = limiter_short_circuits_and_takes_maximum
             [of default_limiter recorded_over_limit "''u''" "jan8 12 2 0"]
  from T ex have 1: "fst (TokenLimiter_is_limit_exceeded default_limiter recorded_over_limit
                            ''u'' (jan8 12 2 0))"
    by blast
  from T have 2: "(fst (snd (TokenLimiter_is_limit_exceeded default_limiter recorded_over_limit
                  ''u'' (jan8 12 2 0))),
       fst (snd (snd (TokenLimiter_is_limit_exceeded default_limiter recorded_over_limit ''u''
                  (jan8 12 2 0))))) = (Some ''output'', Some ''daily'')"
    unfolding f by blast
  from T ne nn have 3: "input_tokens (snd (snd (snd (TokenLimiter_is_limit_exceeded
        default_limiter recorded_over_limit ''u'' (jan8 12 2 0))))) = 10
     \<and> output_tokens (snd (snd (snd (TokenLimiter_is_limit_exceeded default_limiter
        recorded_over_limit ''u'' (jan8 12 2 0))))) = 25000"
    unfolding mi mo by blast
  from T have 4: "daily_output_tokens (snd (snd (snd (TokenLimiter_is_limit_exceeded
        default_limiter recorded_over_limit ''u'' (jan8 12 2 0))))) = 25000
     \<and> monthly_output_tokens (snd (snd (snd (TokenLimiter_is_limit_exceeded default_limiter
        recorded_over_limit ''u'' (jan8 12 2 0))))) = 0"
    unfolding d m by blast
  from 1 2 3 4 show ?thesis by blast
qed

text \<open>
  C6 as stated fails when an earlier meter is exceeded: after records of 50/125000 tokens
  on 5 January and of 10/25000 tokens on 8 January, the ten-minute meter holds 10/25000
  and is exceeded, the monthly meter holds 60/150000 and is not read; the usage returned
  has \<^verbatim>\<open>input_tokens\<close> 10 and \<^verbatim>\<open>output_tokens\<close> 25000, not the maxima 60 and 150000
  over all meters, and its \<^verbatim>\<open>monthly_\<close> fields are 0.
\<close>

theorem limiter_skips_monthly_meter_counterexample:
  "input_tokens (TokenMeter_get_usage default_ten_minute recorded_over_month ''u''
      (jan8 12 2 0)) = 10
   \<and> output_tokens (TokenMeter_get_usage default_ten_minute recorded_over_month ''u''
      (jan8 12 2 0)) = 25000
   \<and> input_tokens (TokenMeter_get_usage default_monthly recorded_over_month ''u''
      (jan8 12 2 0)) = 60
   \<and> output_tokens (TokenMeter_get_usage default_monthly recorded_over_month ''u''
      (jan8 12 2 0)) = 150000
   \<and> map name (meters default_limiter) = [''10min'', ''monthly'']
   \<and> fst (TokenLimiter_is_limit_exceeded default_limiter recorded_over_month ''u''
          (jan8 12 2 0))
   \<and> input_tokens (snd (snd (snd (TokenLimiter_is_limit_exceeded default_limiter
        recorded_over_month ''u'' (jan8 12 2 0))))) = 10
   \<and> output_tokens (snd (snd (snd (TokenLimiter_is_limit_exceeded default_limiter
        recorded_over_month ''u'' (jan8 12 2 0))))) = 25000
   \<and> monthly_input_tokens (snd (snd (snd (TokenLimiter_is_limit_exceeded default_limiter
        recorded_over_month ''u'' (jan8 12 2 0))))) = 0
   \<and> monthly_output_tokens (snd (snd (snd (TokenLimiter_is_limit_exceeded default_limiter
        recorded_over_month ''u'' (jan8 12 2 0))))) = 0"
  by code_simp

text \<open>
  C10 (as amended). A reservation record is written with \<^verbatim>\<open>input_tokens\<close> 0 and with
  the size of a reservation as its \<^verbatim>\<open>output_tokens\<close>; the size is positive exactly when
  the daily output limit of the environment is at least 2 (it is 10000 for the default
  limit). Writing a reservation under a fresh key
  leaves the input usage that any meter reads for any user at any time as it was, and so
  the meter's verdict on the input limit. The check with a reservation reports the token
  type \<^verbatim>\<open>input\<close> only when the check of the regular limits already does: what the
  reservation arithmetic adds is a refusal of type \<^verbatim>\<open>output\<close>.
\<close>

theorem reservations_never_count_as_input:
  "(\<not> raises db PutItem \<longrightarrow>
      bucket (snd (TokenReservationManager_create_reservation mgr env db u now uuid))
        (u, reservation_id_of now uuid) ''input_tokens'' = Some (N 0)
      \<and> bucket (snd (TokenReservationManager_create_reservation mgr env db u now uuid))
        (u, reservation_id_of now uuid) ''output_tokens'' = Some (N (reservation_amount env)))
   \<and> (0 < reservation_amount env) = (2 \<le> env_int env ''DAILY_OUTPUT_LIMIT'' 20000)
   \<and> (map_of (table db) (u, reservation_id_of now uuid) = None \<longrightarrow>
        input_tokens (TokenMeter_get_usage cfg
           (snd (TokenReservationManager_create_reservation mgr env db u now uuid)) u' now')
        = input_tokens (TokenMeter_get_usage cfg db u' now')
        \<and> (fst (snd (TokenMeter_is_limit_exceeded cfg
              (snd (TokenReservationManager_create_reservation mgr env db u now uuid)) u' now'))
             = Some ''input'')
          = (fst (snd (TokenMeter_is_limit_exceeded cfg db u' now')) = Some ''input''))
   \<and> (\<not> fst (TokenLimiter_is_limit_exceeded L db u now) \<longrightarrow>
        fst (snd (is_limit_exceeded_with_reservation L env db u now)) \<noteq> Some ''input'')"
proof -
  let ?db' = "snd (TokenReservationManager_create_reservation mgr env db u now uuid)"
  have 1: "bucket ?db' (u, reservation_id_of now uuid) ''input_tokens'' = Some (N 0)
      \<and> bucket ?db' (u, reservation_id_of now uuid) ''output_tokens''
          = Some (N (reservation_amount env))"
    if "\<not> raises db PutItem"
    using that
    by (simp add: manager_create_reservation_eq bucket_def update_conv' reservation_item_def)
  have 2: "(0 < reservation_amount env) = (2 \<le> env_int env ''DAILY_OUTPUT_LIMIT'' 20000)"
    by (rule amount_positive_iff)
  have 3: "input_tokens (TokenMeter_get_usage cfg ?db' u' now')
        = input_tokens (TokenMeter_get_usage cfg db u' now')"
    if "map_of (table db) (u, reservation_id_of now uuid) = None"
    using that
    by (simp add: manager_create_reservation_eq get_usage_input_after_put
        reservation_item_input)
  have 4: "fst (snd (is_limit_exceeded_with_reservation L env db u now)) \<noteq> Some ''input''"
    if "\<not> fst (TokenLimiter_is_limit_exceeded L db u now)"
    using that
    by (cases "TokenLimiter_is_limit_exceeded L db u now") (simp add: with_reservation_eq)
  from 1 2 3 4 show ?thesis by (simp add: meter_kind_input)
qed

theorem reservations_never_count_as_input_witness:
  "bucket reserved_at_nine (''u'', ''reservation:daily:2025-01-08:uuid1'') ''input_tokens''
     = Some (N 0)
   \<and> bucket reserved_at_nine (''u'', ''reservation:daily:2025-01-08:uuid1'') ''output_tokens''
     = Some (N 10000)
   \<and> 0 < reservation_amount Map.empty
   \<and> input_tokens (TokenMeter_get_usage default_ten_minute reserved_at_nine ''u'' (jan8 9 5 0))
     = input_tokens (TokenMeter_get_usage default_ten_minute empty_db ''u'' (jan8 9 5 0))
   \<and> fst (snd (is_limit_exceeded_with_reservation default_limiter Map.empty empty_db ''u''
                  (jan8 9 0 0))) \<noteq> Some ''input''"
proof -
  have p: "\<not> raises empty_db PutItem" by code_simp
  have l: "2 \<le> env_int Map.empty ''DAILY_OUTPUT_LIMIT'' 20000" by code_simp
  have f: "map_of (table empty_db) (''u'', reservation_id_of (jan8 9 0 0) ''uuid1'') = None"
    by (simp add: empty_db_def)
  have e: "\<not> fst (TokenLimiter_is_limit_exceeded default_limiter empty_db ''u'' (jan8 9 0 0))"
    by code_simp
  have a: "reservation_amount Map.empty = 10000" by code_simp
  have i: "reservation_id_of (jan8 9 0 0) ''uuid1'' = ''reservation:daily:2025-01-08:uuid1''"
    by code_simp
  from reservations_never_count_as_input
         [of empty_db default_manager Map.empty "''u''" "jan8 9 0 0" "''uuid1''"
              default_ten_minute "''u''" "jan8 9 5 0" default_limiter] p l f e
  show ?thesis unfolding a i by (simp add: reserved_at_nine_def)
qed

text \<open>
  C10 as stated fails: with the daily output limit 1 the handler admits a user without
  usage and writes a reservation record of 0 output tokens, which is not positive.
\<close>

theorem reservation_of_zero_tokens_counterexample:
  "fst (lambda_handler_admission (TokenLimiter_init limit_one_env None) limit_one_env empty_db
          ''u'' (jan8 9 0 0) ''uuid1'') = Processing ''reservation:daily:2025-01-08:uuid1''
   \<and> bucket (snd (lambda_handler_admission (TokenLimiter_init limit_one_env None)
                    limit_one_env empty_db ''u'' (jan8 9 0 0) ''uuid1''))
        (''u'', ''reservation:daily:2025-01-08:uuid1'') ''output_tokens'' = Some (N 0)
   \<and> reservation_amount limit_one_env = 0"
  by code_simp

end
